theory Spec2Isabelle
  imports Complex_Main "HOL-Library.Word"
begin

section \<open>Values of the host language\<close>

text \<open>
  A label is a JavaScript string: a sequence of UTF-16 code units, and \<open>text.length\<close>
  and \<open>text[i]\<close> count and read code units. Node ids, colours and model names are
  produced from ASCII templates and error messages are taken to be ASCII; they are kept
  as HOL strings. A JavaScript
  \<open>number\<close> is idealised as a real (a \<open>level\<close> as an integer); \<open>Date.now()\<close> and
  \<open>Math.random()\<close> are read from parameters. An optional boolean field is a
  \<open>bool option\<close>, \<open>None\<close> standing for \<open>undefined\<close>.

  What the provider resolves with is not checked by the code, so it is kept as the
  JSON value it is: \<open>json\<close>, an object being the list of its properties, each key
  once. A property that is missing reads as \<open>None\<close> (\<open>undefined\<close>).
\<close>

type_synonym jsstring = "16 word list"

type_synonym addr = nat

datatype json =
    JNull
  | JBool bool
  | JNum real
  | JStr jsstring
  | JArr "json list"
  | JObj "(jsstring \<times> json) list"

text \<open>The values that \<open>v || []\<close> replaces.\<close>

definition falsy :: "json \<Rightarrow> bool" where
  "falsy v = (v = JNull \<or> v = JBool False \<or> v = JNum 0 \<or> v = JStr [])"

definition truthy :: "bool option \<Rightarrow> bool" where
  "truthy b = (b = Some True)"

text \<open>Template literals print numbers in decimal.\<close>

definition digit_char :: "nat \<Rightarrow> char" where
  "digit_char d = ''0123456789'' ! d"

function dec :: "nat \<Rightarrow> string" where
  "dec n = (if n < 10 then [digit_char n] else dec (n div 10) @ [digit_char (n mod 10)])"
  by pat_completeness auto
termination
  by (relation "measure id") auto

declare dec.simps [simp del]

section \<open>Data model\<close>

text \<open>
  \<open>MindMapNode\<close> (types.ts) and \<open>PhysicsNode\<close>, \<open>PhysicsLink\<close> (BrainstormCanvas.tsx).
  The fields \<open>id\<close>, \<open>text\<close>, \<open>type\<close>, \<open>x\<close>, \<open>y\<close>, \<open>vx\<close>, \<open>vy\<close> of the source are
  \<open>nid\<close>, \<open>ntext\<close>, \<open>ntype\<close>, \<open>nx\<close>, \<open>ny\<close>, \<open>nvx\<close>, \<open>nvy\<close> here. The optional
  \<open>generationMetadata\<close> is only displayed by the image dialog and is left out.
  \<open>text\<close> is declared a string; a node made from a provider result carries whatever
  item the result held, so the field is a \<open>json\<close> value, \<open>JStr\<close> for a string.
\<close>

datatype node_kind = TextNode | ImageNode

datatype association = AUp | ASide | ADown | ARoot

record MindMapNode =
  nid :: string
  ntext :: json
  ntype :: node_kind
  imageUrl :: "string option"
  level :: int
  children :: "string list"
  parentId :: "string option"
  isLoading :: "bool option"
  isSelected :: "bool option"
  isMarked :: "bool option"
  associationType :: "association option"

record PhysicsNode = MindMapNode +
  nx :: real
  ny :: real
  nvx :: real
  nvy :: real
  radius :: real
  color :: string
  isDragging :: "bool option"

record PhysicsLink =
  source :: string
  target :: string
  strength :: real

record transform =
  tx :: real
  ty :: real
  tk :: real

record canvas =
  rect_left :: real
  rect_top :: real
  width :: real
  height :: real
  cursor :: string

datatype toast_type = Warning | Error

text \<open>
  The notification texts of the orchestrator: "no new words were associated" (empty
  result), "expansion failed: " followed by the error's message, and "initialisation
  failed".
\<close>

datatype toast_message = NoNewWords | ExpandFailed string | InitFailed

record toast =
  message :: toast_message
  toast_type :: toast_type

text \<open>
  An error object is seen through the two properties the code reads: \<open>status\<close>, a
  number or absent, and \<open>message\<close>, a string or absent. A promise may also be
  rejected with \<open>null\<close> or \<open>undefined\<close>, on which reading a property throws; any
  other thrown value behaves as an error object (a primitive as one with neither
  property).
\<close>

record js_error =
  err_status :: "int option"
  err_message :: "string option"

datatype thrown = ThrownNull | ThrownUndefined | Thrown js_error

datatype 'a promise_result = Resolved 'a | Rejected thrown

text \<open>
  The \<open>TypeError\<close>s the engine raises. The wording of their messages is the
  engine's own; V8's is used.
\<close>

definition cannotRead :: "string \<Rightarrow> string \<Rightarrow> js_error" where
  "cannotRead what prop =
     \<lparr>err_status = None,
      err_message = Some (''Cannot read properties of '' @ what @ '' (reading '' @ [CHR 0x27]
                           @ prop @ [CHR 0x27] @ '')'')\<rparr>"

definition notAFunction :: "string \<Rightarrow> js_error" where
  "notAFunction what = \<lparr>err_status = None, err_message = Some (what @ '' is not a function'')\<rparr>"

text \<open>
  Reading property \<open>prop\<close> of a caught value: it throws on \<open>null\<close> and
  \<open>undefined\<close>.
\<close>

definition caught :: "thrown \<Rightarrow> string \<Rightarrow> js_error + js_error" where
  "caught t prop =
     (case t of
        ThrownNull \<Rightarrow> Inl (cannotRead ''null'' prop)
      | ThrownUndefined \<Rightarrow> Inl (cannotRead ''undefined'' prop)
      | Thrown e \<Rightarrow> Inr e)"

text \<open>
  A statement that throws ends its block: \<open>bindE\<close> runs the rest only on a value,
  and \<open>sequenceE\<close> is a loop that stops at the first throw.
\<close>

definition bindE :: "js_error + 'a \<Rightarrow> ('a \<Rightarrow> js_error + 'b) \<Rightarrow> js_error + 'b" where
  "bindE m f = (case m of Inl e \<Rightarrow> Inl e | Inr v \<Rightarrow> f v)"

fun sequenceE :: "(js_error + 'a) list \<Rightarrow> js_error + 'a list" where
  "sequenceE [] = Inr []"
| "sequenceE (m # ms) = bindE m (\<lambda>v. bindE (sequenceE ms) (\<lambda>vs. Inr (v # vs)))"

text \<open>
  \<open>ToNumber\<close>, applied by \<open>>\<close> and \<open>Math.sqrt\<close> to an operand that is not a
  number: \<open>None\<close> is NaN. On strings, arrays and objects the conversion is the
  engine's (it parses, joins, and may throw); that part is the parameter \<open>coerce\<close>.
\<close>

type_synonym coercion = "json \<Rightarrow> js_error + real option"

definition ToNumber :: "coercion \<Rightarrow> json option \<Rightarrow> js_error + real option" where
  "ToNumber coerce v =
     (case v of
        None \<Rightarrow> Inr None
      | Some JNull \<Rightarrow> Inr (Some 0)
      | Some (JBool b) \<Rightarrow> Inr (Some (if b then 1 else 0))
      | Some (JNum n) \<Rightarrow> Inr (Some n)
      | Some w \<Rightarrow> coerce w)"

subsection \<open>Constants\<close>

definition COLORS_root :: string where "COLORS_root = ''#4f46e5''"
definition COLORS_up :: string where "COLORS_up = ''#60a5fa''"
definition COLORS_side :: string where "COLORS_side = ''#a78bfa''"
definition COLORS_down :: string where "COLORS_down = ''#94a3b8''"
definition COLORS_image :: string where "COLORS_image = ''#f43f5e''"

definition BASE_RADIUS_root :: real where "BASE_RADIUS_root = 45"
definition BASE_RADIUS_normal :: real where "BASE_RADIUS_normal = 28"
definition BASE_RADIUS_image :: real where "BASE_RADIUS_image = 40"

definition LINK_STRENGTH :: real where "LINK_STRENGTH = 0.008"
definition LINK_DISTANCE :: real where "LINK_DISTANCE = 260"

section \<open>The component's state\<close>

text \<open>
  Physics nodes are mutable objects shared between the node array, the drag reference
  and the closures of pending expansions, so they live in an explicit store: \<open>heap\<close>
  maps an address to the object, \<open>nextAddr\<close> is the next unused address, and
  \<open>nodesRef\<close> is the array of references. Replacing the array (a graph reset) leaves
  the old objects in the store, reachable only through references captured earlier.
  \<open>published\<close> records every array handed to \<open>setNodes\<close>, oldest first, and
  \<open>toastTimer\<close> is the delay left on the timeout armed by the toast effect.
\<close>

record state =
  heap :: "addr \<Rightarrow> PhysicsNode"
  nextAddr :: addr
  nodesRef :: "addr list"
  linksRef :: "PhysicsLink list"
  transformRef :: transform
  simulationActiveRef :: bool
  isDraggingRef :: bool
  dragNode :: "addr option"
  lastMousePos :: "real \<times> real"
  startDragPos :: "real \<times> real"
  canvasRef :: "canvas option"
  toast :: "toast option"
  toastTimer :: "nat option"
  isInitializing :: bool
  infoNode :: "addr option"
  tick :: nat
  published :: "addr list list"

subsection \<open>Helpers\<close>

text \<open>
  \<open>node.text.length\<close>: the code units of a string, the items of an array, the
  \<open>length\<close> property of an object, \<open>undefined\<close> on a number or a boolean, and a
  \<open>TypeError\<close> on \<open>null\<close>.
\<close>

definition length_key :: jsstring where
  "length_key = [0x6C, 0x65, 0x6E, 0x67, 0x74, 0x68]"

definition textLength :: "json \<Rightarrow> js_error + json option" where
  "textLength t =
     (case t of
        JNull \<Rightarrow> Inl (cannotRead ''null'' ''length'')
      | JBool b \<Rightarrow> Inr None
      | JNum n \<Rightarrow> Inr None
      | JStr u \<Rightarrow> Inr (Some (JNum (real (length u))))
      | JArr xs \<Rightarrow> Inr (Some (JNum (real (length xs))))
      | JObj kv \<Rightarrow> Inr (map_of kv length_key))"

definition createPhysicsNode :: "coercion \<Rightarrow> MindMapNode \<Rightarrow> real \<Rightarrow> real \<Rightarrow> js_error + PhysicsNode" where
  "createPhysicsNode coerce node x y =
     (let (r, c) =
            (if level node = 0 then (BASE_RADIUS_root, COLORS_root)
             else if ntype node = ImageNode then (BASE_RADIUS_image, COLORS_image)
             else if associationType node = Some AUp then (BASE_RADIUS_normal, COLORS_up)
             else if associationType node = Some ASide then (BASE_RADIUS_normal, COLORS_side)
             else (BASE_RADIUS_normal, COLORS_down))
      in bindE (textLength (ntext node)) (\<lambda>textLen.
         bindE (ToNumber coerce textLen) (\<lambda>len.
           let r' = (case len of
                       None \<Rightarrow> r
                     | Some l \<Rightarrow> if l > 6 then min (r + sqrt l * 6) 90 else r)
           in Inr (MindMapNode.extend node (PhysicsNode.fields x y 0 0 r' c None)))))"

definition setToast :: "toast option \<Rightarrow> state \<Rightarrow> state" where
  "setToast t s =
     s\<lparr>toast := t, toastTimer := (case t of None \<Rightarrow> None | Some _ \<Rightarrow> Some 4000)\<rparr>"

definition syncNodesToGlobal :: "state \<Rightarrow> state" where
  "syncNodesToGlobal s = s\<lparr>published := published s @ [nodesRef s]\<rparr>"

definition findById :: "(addr \<Rightarrow> PhysicsNode) \<Rightarrow> addr list \<Rightarrow> string \<Rightarrow> addr option" where
  "findById h ns i = List.find (\<lambda>a. nid (h a) = i) ns"

definition hasChildren :: "state \<Rightarrow> string \<Rightarrow> bool" where
  "hasChildren s i = list_ex (\<lambda>l. source l = i) (linksRef s)"

section \<open>Expansion orchestrator\<close>

text \<open>
  \<open>expandNode\<close> suspends once, at the provider call. \<open>expandNode_begin\<close> is the part
  before the \<open>await\<close>: it returns the new state and, when the call is issued, the
  reference \<open>currentNode\<close> the continuation holds. \<open>expandNode_complete\<close> is the
  continuation, run on the state as it is when the provider's promise settles.
\<close>

definition expandNode_begin :: "state \<Rightarrow> addr \<Rightarrow> state \<times> addr option" where
  "expandNode_begin s node =
     (case findById (heap s) (nodesRef s) (nid (heap s node)) of
        None \<Rightarrow> (s, None)
      | Some currentNode \<Rightarrow>
          if truthy (isLoading (heap s currentNode)) \<or> hasChildren s (nid (heap s currentNode))
          then (s, None)
          else (s\<lparr>heap := (heap s)(currentNode := (heap s currentNode)\<lparr>isLoading := Some True\<rparr>),
                  simulationActiveRef := True,
                  tick := tick s + 1\<rparr>,
                Some currentNode))"

definition type_tag :: "association \<Rightarrow> string" where
  "type_tag t = (case t of AUp \<Rightarrow> ''up'' | ASide \<Rightarrow> ''side'' | ADown \<Rightarrow> ''down'' | ARoot \<Rightarrow> ''root'')"

text \<open>The property name of a group, as code units.\<close>

definition group_key :: "association \<Rightarrow> jsstring" where
  "group_key t =
     (case t of
        AUp \<Rightarrow> [0x75, 0x70]
      | ASide \<Rightarrow> [0x73, 0x69, 0x64, 0x65]
      | ADown \<Rightarrow> [0x64, 0x6F, 0x77, 0x6E]
      | ARoot \<Rightarrow> [0x72, 0x6F, 0x6F, 0x74])"

text \<open>
  \<open>result.up || []\<close> followed by \<open>texts.forEach\<close>, for the group \<open>tag\<close>: the items
  the loop visits. Reading a property of \<open>null\<close> throws; on an object the property is
  looked up, on any other value it is \<open>undefined\<close>; a missing or falsy group counts as
  the empty array; and a group that is not an array has no \<open>forEach\<close> to call.
\<close>

definition groupItems :: "json \<Rightarrow> association \<Rightarrow> js_error + json list" where
  "groupItems result tag =
     (case result of
        JNull \<Rightarrow> Inl (cannotRead ''null'' (type_tag tag))
      | _ \<Rightarrow>
          (let v = (case result of JObj kv \<Rightarrow> map_of kv (group_key tag) | _ \<Rightarrow> None);
               texts = (case v of None \<Rightarrow> JArr [] | Some g \<Rightarrow> if falsy g then JArr [] else g)
           in case texts of
                JArr xs \<Rightarrow> Inr xs
              | _ \<Rightarrow> Inl (notAFunction ''texts.forEach'')))"

text \<open>
  \<open>processGroup\<close> pushes one node per item. Each id reads the clock again: \<open>now k\<close>
  is what \<open>Date.now()\<close> returns at the \<open>k\<close>-th node pushed by this continuation, and
  \<open>offset\<close> is the number of nodes pushed by the earlier groups.
\<close>

definition processGroup ::
  "PhysicsNode \<Rightarrow> (nat \<Rightarrow> nat) \<Rightarrow> nat \<Rightarrow> json list \<Rightarrow> association \<Rightarrow> MindMapNode list" where
  "processGroup currentNode now offset texts tag =
     map (\<lambda>(idx, txt).
            \<lparr>nid = nid currentNode @ ''-'' @ type_tag tag @ ''-'' @ dec idx @ ''-'' @ dec (now (offset + idx)),
             ntext = txt,
             ntype = TextNode,
             imageUrl = None,
             level = level currentNode + 1,
             children = [],
             parentId = Some (nid currentNode),
             isLoading = None,
             isSelected = None,
             isMarked = None,
             associationType = Some tag\<rparr>)
         (enumerate 0 texts)"

text \<open>The three calls of \<open>processGroup\<close>, in order; the first throw ends them.\<close>

definition newNodesData :: "PhysicsNode \<Rightarrow> (nat \<Rightarrow> nat) \<Rightarrow> json \<Rightarrow> js_error + MindMapNode list" where
  "newNodesData currentNode now result =
     bindE (groupItems result AUp) (\<lambda>ups.
       let us = processGroup currentNode now 0 ups AUp
       in bindE (groupItems result ASide) (\<lambda>sides.
            let ss = processGroup currentNode now (length us) sides ASide
            in bindE (groupItems result ADown) (\<lambda>downs.
                 let ds = processGroup currentNode now (length us + length ss) downs ADown
                 in Inr (us @ ss @ ds))))"

text \<open>\<open>rnd i\<close> is what \<open>Math.random()\<close> returns for the \<open>i\<close>-th new node.\<close>

definition spawn ::
  "coercion \<Rightarrow> PhysicsNode \<Rightarrow> (nat \<Rightarrow> real) \<Rightarrow> nat \<Rightarrow> nat \<times> MindMapNode \<Rightarrow> js_error + PhysicsNode" where
  "spawn coerce currentNode rnd n p =
     (let angle = (real (fst p) / real n) * pi * 2 + rnd (fst p) * 0.5;
          spawnDist = LINK_DISTANCE * 0.8;
          x = nx currentNode + cos angle * spawnDist;
          y = ny currentNode + sin angle * spawnDist
      in createPhysicsNode coerce (snd p) x y)"

text \<open>Each new object takes the next unused address.\<close>

fun alloc :: "PhysicsNode list \<Rightarrow> (addr \<Rightarrow> PhysicsNode) \<Rightarrow> addr \<Rightarrow> (addr \<Rightarrow> PhysicsNode)" where
  "alloc [] h a = h"
| "alloc (p # ps) h a = alloc ps (h(a := p)) (Suc a)"

text \<open>
  The body of the \<open>try\<close> block after the \<open>await\<close>. Every statement that can throw
  comes before the first write to the store, so a throw leaves the state as it was. The
  "no new words" toast is set only when there is no node to build.
\<close>

definition expandNode_then ::
  "coercion \<Rightarrow> state \<Rightarrow> addr \<Rightarrow> json \<Rightarrow> (nat \<Rightarrow> nat) \<Rightarrow> (nat \<Rightarrow> real) \<Rightarrow> js_error + state" where
  "expandNode_then coerce s currentNode result now rnd =
     (let cur = heap s currentNode
      in bindE (newNodesData cur now result) (\<lambda>nd.
           let s1 = (if length nd = 0
                     then setToast (Some \<lparr>message = NoNewWords, toast_type = Warning\<rparr>) s
                     else s)
           in bindE (sequenceE (map (spawn coerce cur rnd (length nd)) (enumerate 0 nd))) (\<lambda>newPNodes.
                let newLinks = map (\<lambda>n. \<lparr>source = nid cur, target = nid n, strength = 1\<rparr>) newPNodes;
                    a0 = nextAddr s1;
                    h1 = alloc newPNodes (heap s1) a0;
                    h2 = h1(currentNode := (h1 currentNode)\<lparr>children := map nid nd\<rparr>)
                in Inr (s1\<lparr>heap := h2,
                          nextAddr := a0 + length newPNodes,
                          nodesRef := nodesRef s1 @ [a0 ..< a0 + length newPNodes],
                          linksRef := linksRef s1 @ newLinks\<rparr>))))"

text \<open>
  The \<open>catch\<close> block reads \<open>e.message\<close> for its toast. On \<open>null\<close> or \<open>undefined\<close>
  that read throws: no toast is set and the \<open>TypeError\<close> leaves \<open>expandNode\<close>, after
  the \<open>finally\<close> block. The result is the state and the error thrown, if any.
\<close>

definition expandNode_catch :: "state \<Rightarrow> thrown \<Rightarrow> state \<times> js_error option" where
  "expandNode_catch s t =
     (case caught t ''message'' of
        Inl err \<Rightarrow> (s, Some err)
      | Inr e \<Rightarrow>
          (setToast (Some \<lparr>message = ExpandFailed (case err_message e of None \<Rightarrow> ''undefined'' | Some m \<Rightarrow> m),
                           toast_type = Error\<rparr>) s,
           None))"

definition expandNode_finally :: "state \<Rightarrow> addr \<Rightarrow> state" where
  "expandNode_finally s currentNode =
     syncNodesToGlobal
       (s\<lparr>heap := (heap s)(currentNode := (heap s currentNode)\<lparr>isLoading := Some False\<rparr>)\<rparr>)"

text \<open>
  The continuation of \<open>expandNode\<close>: the state it leaves and, when its own \<open>catch\<close>
  block threw, the error with which \<open>expandNode\<close> rejects.
\<close>

definition expandNode_complete ::
  "coercion \<Rightarrow> state \<Rightarrow> addr \<Rightarrow> json promise_result \<Rightarrow> (nat \<Rightarrow> nat) \<Rightarrow> (nat \<Rightarrow> real)
     \<Rightarrow> state \<times> js_error option" where
  "expandNode_complete coerce s currentNode outcome now rnd =
     (let (s1, err) =
            (case outcome of
               Resolved result \<Rightarrow>
                 (case expandNode_then coerce s currentNode result now rnd of
                    Inr s' \<Rightarrow> (s', None)
                  | Inl e \<Rightarrow> expandNode_catch s (Thrown e))
             | Rejected t \<Rightarrow> expandNode_catch s t)
      in (expandNode_finally s1 currentNode, err))"

subsection \<open>Starting a new root\<close>

text \<open>
  \<open>String.prototype.trim\<close> removes white space and line terminators; \<open>!text.trim()\<close>
  holds when nothing else is in the text.
\<close>

definition is_ws :: "16 word \<Rightarrow> bool" where
  "is_ws c = (c \<in> {0x0009, 0x000A, 0x000B, 0x000C, 0x000D, 0x0020, 0x00A0, 0x1680,
                   0x2000, 0x2001, 0x2002, 0x2003, 0x2004, 0x2005, 0x2006, 0x2007,
                   0x2008, 0x2009, 0x200A, 0x2028, 0x2029, 0x202F, 0x205F, 0x3000, 0xFEFF})"

definition trim :: "jsstring \<Rightarrow> jsstring" where
  "trim t = rev (dropWhile is_ws (rev (dropWhile is_ws t)))"

definition startRoot_finally :: "state \<Rightarrow> state" where
  "startRoot_finally s = syncNodesToGlobal (s\<lparr>isInitializing := False\<rparr>)"

text \<open>
  \<open>startRoot\<close> up to the provider call. The root's text is a string, for which
  \<open>createPhysicsNode\<close> does not throw; were it to throw, the error would leave
  \<open>startRoot\<close> before its \<open>try\<close> block. When \<open>expandNode\<close> returns without issuing
  a call, the \<open>finally\<close> block runs at once.
\<close>

definition startRoot_begin :: "coercion \<Rightarrow> state \<Rightarrow> jsstring \<Rightarrow> nat \<Rightarrow> state \<times> addr option" where
  "startRoot_begin coerce s txt now =
     (if trim txt = [] then (s, None)
      else
        let s1 = s\<lparr>isInitializing := True,
                   nodesRef := [],
                   linksRef := [],
                   transformRef := \<lparr>tx = 0, ty = 0, tk = 1\<rparr>,
                   simulationActiveRef := True\<rparr>;
            rootNodeData =
              \<lparr>nid = ''root-'' @ dec now,
               ntext = JStr txt,
               ntype = TextNode,
               imageUrl = None,
               level = 0,
               children = [],
               parentId = None,
               isLoading = Some False,
               isSelected = Some True,
               isMarked = None,
               associationType = Some ARoot\<rparr>;
            rootPNode = nextAddr s1
        in case createPhysicsNode coerce rootNodeData 0 0 of
             Inl e \<Rightarrow> (s1, None)
           | Inr created \<Rightarrow>
               (let s2 = s1\<lparr>heap := (heap s1)(rootPNode := created),
                           nextAddr := Suc rootPNode,
                           nodesRef := [rootPNode]\<rparr>
                in case expandNode_begin s2 rootPNode of
                     (s3, None) \<Rightarrow> (startRoot_finally s3, None)
                   | (s3, Some currentNode) \<Rightarrow> (s3, Some currentNode)))"

text \<open>
  The rest of \<open>startRoot\<close>, run when the call issued by \<open>startRoot_begin\<close> settles.
  The store held only the root when \<open>expandNode\<close> looked its id up, so the reference
  \<open>rootPNode\<close> of \<open>startRoot\<close> and the reference \<open>currentNode\<close> of the
  continuation of \<open>expandNode\<close> are the same. When \<open>expandNode\<close> rejects, the
  \<open>catch\<close> block clears the root's loading flag and shows the "initialisation failed"
  toast; the \<open>finally\<close> block runs in either case.
\<close>

definition startRoot_complete ::
  "coercion \<Rightarrow> state \<Rightarrow> addr \<Rightarrow> json promise_result \<Rightarrow> (nat \<Rightarrow> nat) \<Rightarrow> (nat \<Rightarrow> real) \<Rightarrow> state" where
  "startRoot_complete coerce s rootPNode outcome now rnd =
     (case expandNode_complete coerce s rootPNode outcome now rnd of
        (s1, None) \<Rightarrow> startRoot_finally s1
      | (s1, Some e) \<Rightarrow>
          startRoot_finally
            (setToast (Some \<lparr>message = InitFailed, toast_type = Error\<rparr>)
               (s1\<lparr>heap := (heap s1)(rootPNode := (heap s1 rootPNode)\<lparr>isLoading := Some False\<rparr>)\<rparr>)))"

section \<open>Toast timer\<close>

text \<open>
  The effect on \<open>toast\<close> arms a 4000 ms timeout whose callback clears the toast, and
  cancels the timeout armed for the previous toast (see \<open>setToast\<close>). \<open>elapse d\<close> lets
  \<open>d\<close> milliseconds pass with no other event.
\<close>

definition elapse :: "nat \<Rightarrow> state \<Rightarrow> state" where
  "elapse d s =
     (case toastTimer s of
        None \<Rightarrow> s
      | Some r \<Rightarrow> if r \<le> d then setToast None s else s\<lparr>toastTimer := Some (r - d)\<rparr>)"

section \<open>Interaction controller\<close>

record mouse_event =
  clientX :: real
  clientY :: real
  shiftKey :: bool

text \<open>
  A division by a zero scale, which JavaScript answers with an infinity or NaN, is not
  modelled: HOL's \<open>x / 0\<close> is \<open>0\<close>. No statement below depends on it.
\<close>

definition getWorldPos :: "state \<Rightarrow> mouse_event \<Rightarrow> real \<times> real" where
  "getWorldPos s e =
     (case canvasRef s of
        None \<Rightarrow> (0, 0)
      | Some c \<Rightarrow>
          let rawX = clientX e - rect_left c - width c / 2;
              rawY = clientY e - rect_top c - height c / 2;
              t = transformRef s
          in ((rawX - tx t) / tk t, (rawY - ty t) / tk t))"

text \<open>The hit test walks the array from its last element to its first.\<close>

definition hitTest :: "state \<Rightarrow> real \<times> real \<Rightarrow> addr option" where
  "hitTest s pos =
     List.find
       (\<lambda>a. sqrt ((fst pos - nx (heap s a))\<^sup>2 + (snd pos - ny (heap s a))\<^sup>2) \<le> radius (heap s a))
       (rev (nodesRef s))"

definition setCursor :: "string \<Rightarrow> state \<Rightarrow> state" where
  "setCursor c s = s\<lparr>canvasRef := map_option (\<lambda>cv. cv\<lparr>cursor := c\<rparr>) (canvasRef s)\<rparr>"

definition handleMouseDown :: "state \<Rightarrow> mouse_event \<Rightarrow> state" where
  "handleMouseDown s e =
     (let pos = getWorldPos s e;
          s1 = s\<lparr>lastMousePos := (clientX e, clientY e),
                 startDragPos := (clientX e, clientY e)\<rparr>
      in case hitTest s1 pos of
           Some node \<Rightarrow>
             s1\<lparr>isDraggingRef := True,
                dragNode := Some node,
                heap := (heap s1)(node := (heap s1 node)\<lparr>isDragging := Some True\<rparr>),
                simulationActiveRef := True\<rparr>
         | None \<Rightarrow> s1\<lparr>isDraggingRef := True, dragNode := None\<rparr>)"


definition moveDist :: "state \<Rightarrow> mouse_event \<Rightarrow> real" where
  "moveDist s e =
     sqrt ((clientX e - fst (startDragPos s))\<^sup>2 + (clientY e - snd (startDragPos s))\<^sup>2)"

text \<open>
  \<open>handleMouseUp\<close> up to its only suspension point, the \<open>await expandNode(node)\<close> in
  its last branch: the result is the state and, when a provider call was issued, the
  reference its continuation holds.
\<close>

definition handleMouseUp :: "state \<Rightarrow> mouse_event \<Rightarrow> state \<times> addr option" where
  "handleMouseUp s e =
     (let s1 = setCursor ''grab'' (s\<lparr>isDraggingRef := False\<rparr>)
      in case dragNode s1 of
           None \<Rightarrow> (s1, None)
         | Some node \<Rightarrow>
             let s2 = s1\<lparr>heap := (heap s1)(node := (heap s1 node)\<lparr>isDragging := Some False\<rparr>),
                        dragNode := None\<rparr>
             in if moveDist s2 e < 5
                then
                  if shiftKey e
                  then
                    (let n = heap s2 node;
                         s3 = s2\<lparr>heap := (heap s2)(node := n\<lparr>isMarked := Some (\<not> truthy (isMarked n))\<rparr>)\<rparr>;
                         s4 = syncNodesToGlobal s3
                     in (s4\<lparr>tick := tick s4 + 1\<rparr>, None))
                  else if ntype (heap s2 node) = ImageNode
                  then (s2\<lparr>infoNode := Some node\<rparr>, None)
                  else expandNode_begin s2 node
                else (s2, None))"

section \<open>Viewport transform\<close>

definition handleWheel :: "state \<Rightarrow> real \<Rightarrow> state" where
  "handleWheel s deltaY =
     (let zoomSensitivity = 0.001;
          delta = - deltaY * zoomSensitivity;
          t = transformRef s;
          newScale = max 0.1 (min 5 (tk t + delta))
      in s\<lparr>transformRef := t\<lparr>tk := newScale\<rparr>\<rparr>)"

text \<open>The three buttons of the view controls.\<close>

definition zoomIn :: "state \<Rightarrow> state" where
  "zoomIn s = s\<lparr>transformRef := (transformRef s)\<lparr>tk := tk (transformRef s) * 1.2\<rparr>\<rparr>"

definition zoomOut :: "state \<Rightarrow> state" where
  "zoomOut s = s\<lparr>transformRef := (transformRef s)\<lparr>tk := tk (transformRef s) * 0.8\<rparr>\<rparr>"

definition resetView :: "state \<Rightarrow> state" where
  "resetView s = s\<lparr>transformRef := \<lparr>tx = 0, ty = 0, tk = 1\<rparr>\<rparr>"

section \<open>Force simulation: spring links\<close>

text \<open>
  One iteration of \<open>links.forEach\<close> in the physics update. Both endpoints are looked
  up by id; a dangling link changes nothing. \<open>Math.sqrt(...) || 1\<close> replaces a zero
  distance by \<open>1\<close>. The target's flag is read after the source has been updated, as in
  the source, which matters only when both ends are the same object.
\<close>

definition linkDist :: "PhysicsNode \<Rightarrow> PhysicsNode \<Rightarrow> real" where
  "linkDist src tgt =
     (let dx = nx tgt - nx src;
          dy = ny tgt - ny src;
          d = sqrt (dx * dx + dy * dy)
      in if d = 0 then 1 else d)"

definition targetDist :: "PhysicsNode \<Rightarrow> PhysicsNode \<Rightarrow> real" where
  "targetDist src tgt = LINK_DISTANCE + (radius src + radius tgt) * 0.5"

definition springLink :: "addr list \<Rightarrow> (addr \<Rightarrow> PhysicsNode) \<Rightarrow> PhysicsLink \<Rightarrow> (addr \<Rightarrow> PhysicsNode)" where
  "springLink pNodes h link =
     (case (findById h pNodes (source link), findById h pNodes (target link)) of
        (Some src, Some tgt) \<Rightarrow>
          let dx = nx (h tgt) - nx (h src);
              dy = ny (h tgt) - ny (h src);
              dist = linkDist (h src) (h tgt);
              force = (dist - targetDist (h src) (h tgt)) * LINK_STRENGTH;
              fx = (dx / dist) * force;
              fy = (dy / dist) * force;
              h1 = (if \<not> truthy (isDragging (h src))
                    then h(src := (h src)\<lparr>nvx := nvx (h src) + fx, nvy := nvy (h src) + fy\<rparr>)
                    else h);
              h2 = (if \<not> truthy (isDragging (h1 tgt))
                    then h1(tgt := (h1 tgt)\<lparr>nvx := nvx (h1 tgt) - fx, nvy := nvy (h1 tgt) - fy\<rparr>)
                    else h1)
          in h2
      | _ \<Rightarrow> h)"


section \<open>Text layout engine\<close>

text \<open>
  \<open>drawWrappedText\<close>. The canvas's \<open>ctx.measureText(...).width\<close> under the current font is
  the parameter \<open>measureText\<close>. \<open>split_on\<close> is \<open>text.split(' ')\<close> for the separator
  \<open>0x20\<close>: it always returns at least one word, and empty words where separators
  are adjacent or at an end.
\<close>

fun split_on :: "'a \<Rightarrow> 'a list \<Rightarrow> 'a list list" where
  "split_on sep [] = [[]]"
| "split_on sep (c # cs) =
     (if c = sep then [] # split_on sep cs
      else (case split_on sep cs of
              [] \<Rightarrow> [[c]]
            | w # ws \<Rightarrow> (c # w) # ws))"

fun charWrap :: "(jsstring \<Rightarrow> real) \<Rightarrow> real \<Rightarrow> jsstring \<Rightarrow> jsstring list \<Rightarrow> jsstring \<Rightarrow> jsstring list" where
  "charWrap measureText maxWidth tempLine lines [] = lines @ [tempLine]"
| "charWrap measureText maxWidth tempLine lines (c # cs) =
     (if measureText (tempLine @ [c]) < maxWidth
      then charWrap measureText maxWidth (tempLine @ [c]) lines cs
      else charWrap measureText maxWidth [c] (lines @ [tempLine]) cs)"

fun wordWrap :: "(jsstring \<Rightarrow> real) \<Rightarrow> real \<Rightarrow> jsstring \<Rightarrow> jsstring list \<Rightarrow> jsstring list \<Rightarrow> jsstring list" where
  "wordWrap measureText maxWidth currentLine lines [] = lines @ [currentLine]"
| "wordWrap measureText maxWidth currentLine lines (word # ws) =
     (if measureText (currentLine @ [0x20] @ word) < maxWidth
      then wordWrap measureText maxWidth (currentLine @ [0x20] @ word) lines ws
      else wordWrap measureText maxWidth word (lines @ [currentLine]) ws)"

definition wrapLines :: "(jsstring \<Rightarrow> real) \<Rightarrow> jsstring \<Rightarrow> real \<Rightarrow> jsstring list" where
  "wrapLines measureText txt maxWidth =
     (let words = split_on 0x20 txt
      in if length words = 1 \<and> length txt > 5
         then (if measureText txt > maxWidth
               then charWrap measureText maxWidth [] [] txt
               else [txt])
         else wordWrap measureText maxWidth (hd words) [] (tl words))"

text \<open>The \<open>fillText\<close> calls issued: each line with its position.\<close>

definition drawWrappedText ::
  "(jsstring \<Rightarrow> real) \<Rightarrow> jsstring \<Rightarrow> real \<Rightarrow> real \<Rightarrow> real \<Rightarrow> real \<Rightarrow> (jsstring \<times> real \<times> real) list" where
  "drawWrappedText measureText txt x y maxWidth lineHeight =
     (let lines = wrapLines measureText txt maxWidth;
          totalHeight = real (length lines) * lineHeight;
          startY = y - (totalHeight / 2) + (lineHeight / 2) + lineHeight * 0.1
      in map (\<lambda>(i, line). (line, x, startY + real i * lineHeight)) (enumerate 0 lines))"

section \<open>Expansion provider wrapper\<close>

text \<open>
  \<open>expandBrainstormNode\<close> and \<open>withFallback\<close> (geminiService.ts). The remote call is
  the parameter \<open>gen\<close>: for a model name, either the value thrown by \<open>getAI\<close>, by
  \<open>generateContent\<close> or by the read of \<open>response.text\<close>, or the response's optional
  text. \<open>JSON.parse\<close> is the parameter \<open>parse\<close>: a syntax error or the parsed value,
  which the source returns as it is, under an unchecked cast to \<open>AssociationResponse\<close>.
  The prompt only feeds the remote call. It is built before the \<open>try\<close> block, from the
  node's text and two properties of the \<open>prompts\<close> object; the application passes
  \<open>library.prompts\<close>, which is always an object, so that building the prompt does not
  throw. The one-second pause before the second attempt is not modelled.
\<close>

datatype gen_outcome = GenThrows thrown | GenResponse "jsstring option"






text \<open>\<open>s.replace(/pat/g, '')\<close> for a literal pattern: every match, left to right, is removed.\<close>

function strip_all :: "'a list \<Rightarrow> 'a list \<Rightarrow> 'a list" where
  "strip_all pat [] = []"
| "strip_all pat (c # cs) =
     (if pat \<noteq> [] \<and> take (length pat) (c # cs) = pat
      then strip_all pat (drop (length pat) (c # cs))
      else c # strip_all pat cs)"
  by pat_completeness auto
termination
  by (relation "measure (\<lambda>(pat, t). length t)") (auto simp: neq_Nil_conv)

definition fence_json :: jsstring where
  "fence_json = [0x60, 0x60, 0x60, 0x6A, 0x73, 0x6F, 0x6E]"

definition fence :: jsstring where
  "fence = [0x60, 0x60, 0x60]"

text \<open>
  The declared result type \<open>AssociationResponse\<close>: an object with the three groups,
  each an array of strings. \<open>emptyResponse\<close> is the literal
  \<open>{ up: [], side: [], down: [] }\<close>.
\<close>

definition associationResponse :: "jsstring list \<Rightarrow> jsstring list \<Rightarrow> jsstring list \<Rightarrow> json" where
  "associationResponse ups sides downs =
     JObj [(group_key AUp, JArr (map JStr ups)),
           (group_key ASide, JArr (map JStr sides)),
           (group_key ADown, JArr (map JStr downs))]"

definition emptyResponse :: json where
  "emptyResponse = associationResponse [] [] []"

definition execute ::
  "(string \<Rightarrow> gen_outcome) \<Rightarrow> (jsstring \<Rightarrow> js_error + json) \<Rightarrow> string \<Rightarrow> json promise_result" where
  "execute gen parse model =
     (case gen model of
        GenThrows t \<Rightarrow> Rejected t
      | GenResponse None \<Rightarrow> Resolved emptyResponse
      | GenResponse (Some t) \<Rightarrow>
          (if t = [] then Resolved emptyResponse
           else
             (let cleanText = trim (strip_all fence (strip_all fence_json t))
              in (case parse cleanText of
                    Inl e \<Rightarrow> Rejected (Thrown e)
                  | Inr v \<Rightarrow> Resolved v))))"


section \<open>Events between a request and its completion\<close>





section \<open>Sample states\<close>

text \<open>
  The state of a freshly mounted canvas of 800 by 600 pixels: no node, the identity
  transform, the simulation awake. The objects at unused addresses are never read.
\<close>

definition unusedNode :: PhysicsNode where
  "unusedNode =
     \<lparr>nid = [], ntext = JStr [], ntype = TextNode, imageUrl = None, level = 0, children = [],
      parentId = None, isLoading = None, isSelected = None, isMarked = None,
      associationType = None,
      nx = 0, ny = 0, nvx = 0, nvy = 0, radius = 0, color = [], isDragging = None\<rparr>"

definition mounted :: state where
  "mounted =
     \<lparr>heap = (\<lambda>a. unusedNode),
      nextAddr = 0,
      nodesRef = [],
      linksRef = [],
      transformRef = \<lparr>tx = 0, ty = 0, tk = 1\<rparr>,
      simulationActiveRef = True,
      isDraggingRef = False,
      dragNode = None,
      lastMousePos = (0, 0),
      startDragPos = (0, 0),
      canvasRef = Some \<lparr>rect_left = 0, rect_top = 0, width = 800, height = 600, cursor = ''grab''\<rparr>,
      toast = None,
      toastTimer = None,
      isInitializing = False,
      infoNode = None,
      tick = 0,
      published = []\<rparr>"

text \<open>A stand-in for the engine's conversion: every operand converts to NaN.\<close>

definition nanCoerce :: coercion where
  "nanCoerce v = Inr None"

text \<open>
  A root submitted on the mounted canvas at clock value 1, its expansion still in
  flight: the store holds the root at address 0, with id \<open>root-1\<close>, loading.
\<close>

definition loadingRoot :: state where
  "loadingRoot = fst (startRoot_begin nanCoerce mounted [0x41] 1)"

text \<open>
  Two objects for the spring force: a parent at the origin and a child at \<open>(3, 4)\<close>,
  the child held by the pointer.
\<close>

definition twoNodes :: "addr \<Rightarrow> PhysicsNode" where
  "twoNodes = (\<lambda>a. unusedNode)
     (0 := unusedNode\<lparr>nid := ''p'', radius := 45\<rparr>,
      1 := unusedNode\<lparr>nid := ''c'', nx := 3, ny := 4, radius := 28, isDragging := Some True\<rparr>)"

text \<open>
  The error of a failed provider call, a clock that always reads 2 and a random source
  that always returns 0.
\<close>

definition boom :: js_error where
  "boom = \<lparr>err_status = Some 500, err_message = Some ''boom''\<rparr>"

definition clock2 :: "nat \<Rightarrow> nat" where
  "clock2 k = 2"

definition noJitter :: "nat \<Rightarrow> real" where
  "noJitter i = 0"

text \<open>
  \<open>idleRoot\<close>: the expansion of \<open>loadingRoot\<close> has failed and its notification has
  gone, so the root is in the store, not loading, without children, and no toast is
  shown. \<open>retrying\<close>: the root has been clicked again and its second request is in
  flight.
\<close>

definition idleRoot :: state where
  "idleRoot =
     elapse 5000 (startRoot_complete nanCoerce loadingRoot 0 (Rejected (Thrown boom)) clock2 noJitter)"

definition retrying :: state where
  "retrying = fst (expandNode_begin idleRoot 0)"

text \<open>
  \<open>replacedRoot\<close>: while the request of \<open>loadingRoot\<close> is in flight, a second root
  is submitted at clock value 2. The store now holds only the new root, at address 1;
  the old root, at address 0, is reachable only from the pending continuation.
  \<open>oneUp\<close> is a provider result with one string.
\<close>

definition oneUp :: json where
  "oneUp = associationResponse [[0x78]] [] []"

definition replacedRoot :: state where
  "replacedRoot = fst (startRoot_begin nanCoerce loadingRoot [0x42] 2)"

text \<open>
  Pointer events, and \<open>grabbedRoot\<close>: the pointer pressed on the root of \<open>idleRoot\<close>,
  which is drawn at the centre \<open>(400, 300)\<close> of the canvas.
\<close>

definition pressAt :: "real \<Rightarrow> real \<Rightarrow> bool \<Rightarrow> mouse_event" where
  "pressAt px py shift = \<lparr>clientX = px, clientY = py, shiftKey = shift\<rparr>"

definition grabbedRoot :: state where
  "grabbedRoot = handleMouseDown idleRoot (pressAt 400 300 False)"

text \<open>\<open>grabbedLoading\<close>: the pointer pressed on the root of \<open>loadingRoot\<close>.\<close>

definition grabbedLoading :: state where
  "grabbedLoading = handleMouseDown loadingRoot (pressAt 400 300 False)"

text \<open>
  The state \<open>handleMouseUp\<close> reaches once it has cleared the drag state of a gesture
  that started on \<open>node\<close>, before it looks at the displacement.
\<close>

definition released :: "state \<Rightarrow> addr \<Rightarrow> state" where
  "released s node =
     (setCursor ''grab'' (s\<lparr>isDraggingRef := False\<rparr>))
       \<lparr>heap := (heap s)(node := (heap s node)\<lparr>isDragging := Some False\<rparr>), dragNode := None\<rparr>"

text \<open>The scenario of the carrot root: the label and the provider's result.\<close>

definition carrot :: jsstring where
  "carrot = [0x80E1, 0x841D, 0x535C]"

definition carrotResult :: json where
  "carrotResult =
     associationResponse
       [[0x852C, 0x83DC], [0x98DF, 0x7269]]
       [[0x5154, 0x5B50], [0x6C99, 0x62C9]]
       [[0x80E1, 0x841D, 0x535C, 0x5207, 0x9762]]"

text \<open>
  Remote services and a parser. \<open>busyGen\<close> answers every call with status 503.
  \<open>refusedGen\<close> answers every call with status 400 and a message about the key.
  \<open>nullGen\<close> answers with the text \<open>null\<close>. \<open>recoveringGen\<close> answers the first
  model with status 503 and the fallback model with \<open>oneUpText\<close>, the text
  \<open>{"up":["x"],"side":[],"down":[]}\<close>. \<open>sampleParse\<close> reads \<open>null\<close> as \<open>null\<close>,
  \<open>oneUpText\<close> as the result \<open>oneUp\<close>, and rejects the rest.
\<close>

definition busy :: js_error where
  "busy = \<lparr>err_status = Some 503, err_message = Some ''The model is overloaded''\<rparr>"

definition busyGen :: "string \<Rightarrow> gen_outcome" where
  "busyGen model = GenThrows (Thrown busy)"







text \<open>
  Width functions and labels. \<open>tenPerUnit\<close> gives every code unit 10 pixels;
  \<open>glyphWidths\<close> gives the ligature U+FDFD 90 pixels and every other code unit 7.
  \<open>spacedLabel\<close> has a space; \<open>longToken\<close>, \<open>shortToken\<close> and \<open>ligatureLabel\<close>
  have none, and have six, five and six code units.
\<close>

definition tenPerUnit :: "jsstring \<Rightarrow> real" where
  "tenPerUnit l = 10 * real (length l)"

definition glyphWidths :: "jsstring \<Rightarrow> real" where
  "glyphWidths l = sum_list (map (\<lambda>c. if c = 0xFDFD then 90 else 7) l)"

definition spacedLabel :: jsstring where
  "spacedLabel = [0x61, 0x62, 0x63, 0x64, 0x65, 0x66, 0x67, 0x68, 0x20, 0x69]"

definition longToken :: jsstring where
  "longToken = [0x61, 0x62, 0x63, 0x64, 0x65, 0x66]"

definition shortToken :: jsstring where
  "shortToken = [0x61, 0x62, 0x63, 0x64, 0x65]"

definition ligatureLabel :: jsstring where
  "ligatureLabel = [0x61, 0x62, 0x63, 0x64, 0x65, 0xFDFD]"

section \<open>Verified properties\<close>

subsection \<open>Facts about the sample states\<close>

lemma bindE_simps [simp]:
  "bindE (Inl e) f = Inl e"
  "bindE (Inr v) f = f v"
  by (simp_all add: bindE_def)

lemma createPhysicsNode_string:
  "ntext node = JStr t \<Longrightarrow>
   createPhysicsNode coerce node x y =
     Inr (MindMapNode.extend node
            (PhysicsNode.fields x y 0 0
               (let r = (if level node = 0 then BASE_RADIUS_root
                         else if ntype node = ImageNode then BASE_RADIUS_image
                         else BASE_RADIUS_normal)
                in if real (length t) > 6 then min (r + sqrt (real (length t)) * 6) 90 else r)
               (if level node = 0 then COLORS_root
                else if ntype node = ImageNode then COLORS_image
                else if associationType node = Some AUp then COLORS_up
                else if associationType node = Some ASide then COLORS_side
                else COLORS_down)
               None))"
  by (simp add: createPhysicsNode_def textLength_def ToNumber_def Let_def)

lemma loadingRoot_eq:
  "loadingRoot =
     mounted\<lparr>isInitializing := True, nodesRef := [0], linksRef := [],
        transformRef := \<lparr>tx = 0, ty = 0, tk = 1\<rparr>, simulationActiveRef := True,
        heap := (heap mounted)(0 :=
           \<lparr>nid = ''root-1'', ntext = JStr [0x41], ntype = TextNode, imageUrl = None, level = 0,
            children = [], parentId = None, isLoading = Some True, isSelected = Some True,
            isMarked = None, associationType = Some ARoot,
            nx = 0, ny = 0, nvx = 0, nvy = 0, radius = 45, color = COLORS_root, isDragging = None\<rparr>),
        nextAddr := 1, tick := 1\<rparr>"
  by (simp add: loadingRoot_def startRoot_begin_def trim_def is_ws_def mounted_def Let_def
        expandNode_begin_def findById_def createPhysicsNode_string MindMapNode.extend_def
        PhysicsNode.fields_def truthy_def hasChildren_def dec.simps digit_char_def
        BASE_RADIUS_root_def)

lemma loadingRoot_fields:
  "nodesRef loadingRoot = [0]"
  "linksRef loadingRoot = []"
  "nid (heap loadingRoot 0) = ''root-1''"
  "isLoading (heap loadingRoot 0) = Some True"
  by (simp_all add: loadingRoot_eq mounted_def)

subsection \<open>The two halves of an expansion\<close>

lemma expandNode_begin_cases:
  "expandNode_begin s node = (s, None)
   \<or> (\<exists>c. expandNode_begin s node =
            (s\<lparr>heap := (heap s)(c := (heap s c)\<lparr>isLoading := Some True\<rparr>),
               simulationActiveRef := True, tick := tick s + 1\<rparr>, Some c))"
  by (simp add: expandNode_begin_def split: option.split)



lemma begin_frame:
  "isDraggingRef (fst (expandNode_begin s node)) = isDraggingRef s"
  "dragNode (fst (expandNode_begin s node)) = dragNode s"
  "isDragging (heap (fst (expandNode_begin s node)) a) = isDragging (heap s a)"
  "published (fst (expandNode_begin s node)) = published s"
  using expandNode_begin_cases [of s node] by auto

lemma complete_eq:
  "expandNode_complete coerce s a outcome now rnd =
     (expandNode_finally
        (fst (case outcome of
                Resolved result \<Rightarrow>
                  (case expandNode_then coerce s a result now rnd of
                     Inr s' \<Rightarrow> (s', None)
                   | Inl e \<Rightarrow> expandNode_catch s (Thrown e))
              | Rejected t \<Rightarrow> expandNode_catch s t)) a,
      snd (case outcome of
                Resolved result \<Rightarrow>
                  (case expandNode_then coerce s a result now rnd of
                     Inr s' \<Rightarrow> (s', None)
                   | Inl e \<Rightarrow> expandNode_catch s (Thrown e))
              | Rejected t \<Rightarrow> expandNode_catch s t))"
  by (simp add: expandNode_complete_def Let_def split: prod.split)

lemma complete_clears:
  "isLoading (heap (fst (expandNode_complete coerce s a outcome now rnd)) a) = Some False"
  by (simp add: complete_eq expandNode_finally_def syncNodesToGlobal_def)

text \<open>A rejection with an error object, and one with \<open>null\<close> or \<open>undefined\<close>.\<close>

lemma reject_state:
  "expandNode_complete coerce s a (Rejected (Thrown e)) now rnd =
     (s\<lparr>toast := Some \<lparr>message = ExpandFailed (case err_message e of None \<Rightarrow> ''undefined'' | Some m \<Rightarrow> m),
                       toast_type = Error\<rparr>,
        toastTimer := Some 4000,
        heap := (heap s)(a := (heap s a)\<lparr>isLoading := Some False\<rparr>),
        published := published s @ [nodesRef s]\<rparr>, None)"
  by (simp add: expandNode_complete_def expandNode_finally_def expandNode_catch_def caught_def
        setToast_def syncNodesToGlobal_def)



lemma idleRoot_eq:
  "idleRoot =
     mounted\<lparr>nodesRef := [0], linksRef := [],
        transformRef := \<lparr>tx = 0, ty = 0, tk = 1\<rparr>, simulationActiveRef := True,
        heap := (heap mounted)(0 :=
           \<lparr>nid = ''root-1'', ntext = JStr [0x41], ntype = TextNode, imageUrl = None, level = 0,
            children = [], parentId = None, isLoading = Some False, isSelected = Some True,
            isMarked = None, associationType = Some ARoot,
            nx = 0, ny = 0, nvx = 0, nvy = 0, radius = 45, color = COLORS_root, isDragging = None\<rparr>),
        nextAddr := 1, tick := 1,
        toast := None,
        toastTimer := None,
        isInitializing := False,
        published := [[0], [0]]\<rparr>"
  by (simp add: idleRoot_def startRoot_complete_def startRoot_finally_def elapse_def setToast_def
        syncNodesToGlobal_def reject_state loadingRoot_eq mounted_def boom_def)

lemma idleRoot_fields:
  "nodesRef idleRoot = [0]"
  "linksRef idleRoot = []"
  "nextAddr idleRoot = 1"
  "nid (heap idleRoot 0) = ''root-1''"
  "isLoading (heap idleRoot 0) = Some False"
  "published idleRoot = [[0], [0]]"
  "toast idleRoot = None"
  by (simp_all add: idleRoot_eq mounted_def)

lemma retrying_begin: "expandNode_begin idleRoot 0 = (retrying, Some 0)"
  by (simp add: retrying_def expandNode_begin_def idleRoot_fields findById_def truthy_def
        hasChildren_def)


lemma replacedRoot_eq:
  "replacedRoot =
     loadingRoot\<lparr>nodesRef := [1],
        heap := (heap loadingRoot)(1 :=
           \<lparr>nid = ''root-2'', ntext = JStr [0x42], ntype = TextNode, imageUrl = None, level = 0,
            children = [], parentId = None, isLoading = Some True, isSelected = Some True,
            isMarked = None, associationType = Some ARoot,
            nx = 0, ny = 0, nvx = 0, nvy = 0, radius = 45, color = COLORS_root, isDragging = None\<rparr>),
        nextAddr := 2, tick := 2\<rparr>"
  by (simp add: replacedRoot_def startRoot_begin_def trim_def is_ws_def Let_def
        expandNode_begin_def findById_def createPhysicsNode_string MindMapNode.extend_def
        PhysicsNode.fields_def truthy_def hasChildren_def dec.simps digit_char_def
        BASE_RADIUS_root_def loadingRoot_eq mounted_def)

subsection \<open>Results of the declared type\<close>

lemma group_keys_distinct:
  "group_key AUp \<noteq> group_key ASide" "group_key AUp \<noteq> group_key ADown"
  "group_key ASide \<noteq> group_key ADown" "group_key ASide \<noteq> group_key AUp"
  "group_key ADown \<noteq> group_key AUp" "group_key ADown \<noteq> group_key ASide"
  by (simp_all add: group_key_def)

lemma groupItems_response:
  "groupItems (associationResponse ups sides downs) AUp = Inr (map JStr ups)"
  "groupItems (associationResponse ups sides downs) ASide = Inr (map JStr sides)"
  "groupItems (associationResponse ups sides downs) ADown = Inr (map JStr downs)"
  by (simp_all add: groupItems_def associationResponse_def group_keys_distinct falsy_def Let_def)

lemma newNodesData_response:
  "newNodesData cur now (associationResponse ups sides downs) =
     Inr (processGroup cur now 0 (map JStr ups) AUp
          @ processGroup cur now (length ups) (map JStr sides) ASide
          @ processGroup cur now (length ups + length sides) (map JStr downs) ADown)"
  by (simp add: newNodesData_def groupItems_response Let_def processGroup_def)

lemma sequenceE_Inr:
  "\<forall>x \<in> set xs. f x = Inr (g x) \<Longrightarrow> sequenceE (map f xs) = Inr (map g xs)"
  by (induction xs) simp_all

lemma sequenceE_total:
  "\<forall>x \<in> set xs. \<exists>v. f x = Inr v \<Longrightarrow> \<exists>vs. sequenceE (map f xs) = Inr vs \<and> length vs = length xs"
proof (induction xs)
  case Nil
  then show ?case by simp
next
  case (Cons x xs)
  then obtain v where v: "f x = Inr v" by auto
  from Cons obtain vs where vs: "sequenceE (map f xs) = Inr vs" "length vs = length xs" by auto
  show ?case using v vs by simp
qed

lemma enumerate_snd: "p \<in> set (enumerate k xs) \<Longrightarrow> snd p \<in> set xs"
  by (cases p) (auto simp: enumerate_eq_zip dest: set_zip_rightD)

lemma processGroup_strings:
  "\<forall>n \<in> set (processGroup cur now k (map JStr ts) tag). \<exists>t. ntext n = JStr t"
  by (auto simp: processGroup_def in_set_enumerate_eq)

lemma processGroup_length [simp]: "length (processGroup cur now k ts tag) = length ts"
  by (simp add: processGroup_def)

lemma spawn_string: "ntext (snd p) = JStr t \<Longrightarrow> \<exists>q. spawn coerce cur rnd n p = Inr q"
  by (simp add: spawn_def Let_def createPhysicsNode_string)

lemma then_response:
  "\<exists>s''. expandNode_then coerce s c (associationResponse ups sides downs) now rnd = Inr s''
     \<and> nodesRef s'' = nodesRef s @ [nextAddr s ..< nextAddr s + (length ups + length sides + length downs)]
     \<and> map source (linksRef s'')
         = map source (linksRef s) @ replicate (length ups + length sides + length downs) (nid (heap s c))
     \<and> nextAddr s'' = nextAddr s + (length ups + length sides + length downs)
     \<and> length (children (heap s'' c)) = length ups + length sides + length downs
     \<and> toast s'' = (if length ups + length sides + length downs = 0
                    then Some \<lparr>message = NoNewWords, toast_type = Warning\<rparr> else toast s)"
proof -
  let ?cur = "heap s c"
  let ?nd = "processGroup ?cur now 0 (map JStr ups) AUp
          @ processGroup ?cur now (length ups) (map JStr sides) ASide
          @ processGroup ?cur now (length ups + length sides) (map JStr downs) ADown"
  have len: "length ?nd = length ups + length sides + length downs" by simp
  have "\<forall>n \<in> set ?nd. \<exists>t. ntext n = JStr t"
    using processGroup_strings by (auto simp del: processGroup_length)
  then have "\<forall>p \<in> set (enumerate 0 ?nd). \<exists>t. ntext (snd p) = JStr t"
    using enumerate_snd by blast
  then have "\<forall>p \<in> set (enumerate 0 ?nd). \<exists>q. spawn coerce ?cur rnd (length ?nd) p = Inr q"
    using spawn_string by blast
  then obtain ps where ps: "sequenceE (map (spawn coerce ?cur rnd (length ?nd)) (enumerate 0 ?nd)) = Inr ps"
      and lps: "length ps = length (enumerate 0 ?nd)"
    using sequenceE_total by blast
  have lps': "length ps = length ups + length sides + length downs"
    using lps len by simp
  have src: "map source (map (\<lambda>n. \<lparr>source = nid ?cur, target = nid n, strength = 1\<rparr>) ps)
               = replicate (length ps) (nid ?cur)"
    by (simp add: comp_def map_replicate_const)
  have e: "expandNode_then coerce s c (associationResponse ups sides downs) now rnd =
      Inr ((if length ?nd = 0 then setToast (Some \<lparr>message = NoNewWords, toast_type = Warning\<rparr>) s else s)
         \<lparr>heap := (alloc ps (heap s) (nextAddr s))
                    (c := (alloc ps (heap s) (nextAddr s) c)\<lparr>children := map nid ?nd\<rparr>),
          nextAddr := nextAddr s + length ps,
          nodesRef := nodesRef s @ [nextAddr s ..< nextAddr s + length ps],
          linksRef := linksRef s @ map (\<lambda>n. \<lparr>source = nid ?cur, target = nid n, strength = 1\<rparr>) ps\<rparr>)"
    unfolding expandNode_then_def newNodesData_response Let_def bindE_simps ps
    by (simp add: setToast_def)
  show ?thesis
    unfolding e using lps' src by (simp add: setToast_def)
qed

subsection \<open>The loading flag of a request in flight\<close>



















subsection \<open>A result that arrives after the store has changed\<close>

lemma complete_response:
  "let r = fst (expandNode_complete coerce s c (Resolved (associationResponse ups sides downs)) now rnd);
       n = length ups + length sides + length downs
   in nodesRef r = nodesRef s @ [nextAddr s ..< nextAddr s + n]
    \<and> map source (linksRef r) = map source (linksRef s) @ replicate n (nid (heap s c))
    \<and> length (children (heap r c)) = n"
proof -
  obtain s'' where t: "expandNode_then coerce s c (associationResponse ups sides downs) now rnd = Inr s''"
    and f: "nodesRef s'' = nodesRef s @ [nextAddr s ..< nextAddr s + (length ups + length sides + length downs)]"
      "map source (linksRef s'')
         = map source (linksRef s) @ replicate (length ups + length sides + length downs) (nid (heap s c))"
      "length (children (heap s'' c)) = length ups + length sides + length downs"
    using then_response [of coerce s c ups sides downs now rnd] by blast
  show ?thesis
    using f by (simp add: complete_eq t expandNode_finally_def syncNodesToGlobal_def Let_def)
qed

text \<open>
  Claim C1, as amended. The node is resolved by id in the store when the expansion is
  triggered, before the provider call: if no node with the requested id is in the store
  then, the request is dropped with no provider call and the state as it was; and when a
  call is issued, the reference the continuation holds is the one found by id at that
  moment. The continuation does not look the id up again. Whatever the store holds when
  the call settles, also when no node with that id is left in it, the continuation clears
  the loading flag of the object it holds and applies a result of the declared type
  through that reference: it appends one node per string to the current node array and
  as many links, sourced at the held object's id, to the current link array, and writes
  the held object's list of children.
\<close>

theorem expandNode_resolves_at_trigger:
  "(findById (heap s) (nodesRef s) (nid (heap s node)) = None
      \<longrightarrow> expandNode_begin s node = (s, None))
   \<and> (\<forall>c. snd (expandNode_begin s node) = Some c
      \<longrightarrow> findById (heap s) (nodesRef s) (nid (heap s node)) = Some c)
   \<and> isLoading (heap (fst (expandNode_complete coerce s' c' outcome now rnd)) c') = Some False
   \<and> (let r = fst (expandNode_complete coerce s' c' (Resolved (associationResponse ups sides downs)) now rnd);
          n = length ups + length sides + length downs
      in nodesRef r = nodesRef s' @ [nextAddr s' ..< nextAddr s' + n]
       \<and> map source (linksRef r) = map source (linksRef s') @ replicate n (nid (heap s' c'))
       \<and> length (children (heap r c')) = n)"
proof (intro conjI)
  show "findById (heap s) (nodesRef s) (nid (heap s node)) = None
      \<longrightarrow> expandNode_begin s node = (s, None)"
    by (simp add: expandNode_begin_def)
  show "\<forall>c. snd (expandNode_begin s node) = Some c
      \<longrightarrow> findById (heap s) (nodesRef s) (nid (heap s node)) = Some c"
    by (auto simp: expandNode_begin_def split: option.splits if_splits)
  show "isLoading (heap (fst (expandNode_complete coerce s' c' outcome now rnd)) c') = Some False"
    by (rule complete_clears)
  show "let r = fst (expandNode_complete coerce s' c' (Resolved (associationResponse ups sides downs)) now rnd);
          n = length ups + length sides + length downs
      in nodesRef r = nodesRef s' @ [nextAddr s' ..< nextAddr s' + n]
       \<and> map source (linksRef r) = map source (linksRef s') @ replicate n (nid (heap s' c'))
       \<and> length (children (heap r c')) = n"
    by (rule complete_response)
qed

theorem expandNode_resolves_at_trigger_witness:
  "findById (heap replacedRoot) (nodesRef replacedRoot) (nid (heap replacedRoot 0)) = None
   \<and> expandNode_begin replacedRoot 0 = (replacedRoot, None)
   \<and> snd (expandNode_begin idleRoot 0) = Some 0
   \<and> findById (heap idleRoot) (nodesRef idleRoot) (nid (heap idleRoot 0)) = Some 0
   \<and> nodesRef (fst (expandNode_complete nanCoerce replacedRoot 0
                      (Resolved (associationResponse [[0x78]] [] [])) clock2 noJitter)) = [1, 2]
   \<and> map source (linksRef (fst (expandNode_complete nanCoerce replacedRoot 0
                      (Resolved (associationResponse [[0x78]] [] [])) clock2 noJitter))) = [''root-1'']"
proof -
  have n: "findById (heap replacedRoot) (nodesRef replacedRoot) (nid (heap replacedRoot 0)) = None"
    by (simp add: replacedRoot_eq loadingRoot_eq mounted_def findById_def)
  have i: "snd (expandNode_begin idleRoot 0) = Some 0"
    by (simp add: retrying_begin)
  have f: "nodesRef replacedRoot = [1]" "linksRef replacedRoot = []" "nextAddr replacedRoot = 2"
    "nid (heap replacedRoot 0) = ''root-1''"
    by (simp_all add: replacedRoot_eq loadingRoot_eq mounted_def)
  show ?thesis
    using expandNode_resolves_at_trigger [of replacedRoot 0 nanCoerce replacedRoot 0 "Rejected (Thrown boom)" clock2 noJitter "[[0x78]]" "[]" "[]"]
          expandNode_resolves_at_trigger [of idleRoot 0 nanCoerce replacedRoot 0 "Rejected (Thrown boom)" clock2 noJitter "[[0x78]]" "[]" "[]"]
          n i
    by (simp add: Let_def f)
qed

text \<open>
  The claim as stated fails. A second root is submitted while the first root's request
  is in flight; when that request settles no node with id \<open>root-1\<close> is in the
  store, and yet the result is applied: a node and a link sourced at \<open>root-1\<close> are
  appended to the new store, and the old root's \<open>children\<close> is written.
\<close>

theorem stale_result_counterexample:
  "findById (heap replacedRoot) (nodesRef replacedRoot) (nid (heap replacedRoot 0)) = None
   \<and> nodesRef replacedRoot = [1]
   \<and> linksRef replacedRoot = []
   \<and> children (heap replacedRoot 0) = []
   \<and> nodesRef (startRoot_complete nanCoerce replacedRoot 0 (Resolved oneUp) clock2 noJitter) = [1, 2]
   \<and> linksRef (startRoot_complete nanCoerce replacedRoot 0 (Resolved oneUp) clock2 noJitter)
       = [\<lparr>source = ''root-1'', target = ''root-1-up-0-2'', strength = 1\<rparr>]
   \<and> children (heap (startRoot_complete nanCoerce replacedRoot 0 (Resolved oneUp) clock2 noJitter) 0)
       = [''root-1-up-0-2'']"
  by (simp add: replacedRoot_eq loadingRoot_eq mounted_def findById_def
        startRoot_complete_def startRoot_finally_def expandNode_complete_def
        expandNode_finally_def expandNode_then_def syncNodesToGlobal_def
        newNodesData_response processGroup_def oneUp_def type_tag_def
        spawn_def createPhysicsNode_string MindMapNode.extend_def PhysicsNode.fields_def Let_def
        clock2_def dec.simps digit_char_def)

subsection \<open>The scenario of the carrot root\<close>

lemma trim_carrot: "trim carrot = carrot"
  by (simp add: trim_def carrot_def is_ws_def)

lemma carrot_begin:
  "startRoot_begin coerce s carrot t0 =
     (s\<lparr>isInitializing := True, nodesRef := [nextAddr s], linksRef := [],
        transformRef := \<lparr>tx = 0, ty = 0, tk = 1\<rparr>, simulationActiveRef := True,
        heap := (heap s)(nextAddr s :=
           \<lparr>nid = ''root-'' @ dec t0, ntext = JStr carrot, ntype = TextNode, imageUrl = None, level = 0,
            children = [], parentId = None, isLoading = Some True, isSelected = Some True,
            isMarked = None, associationType = Some ARoot,
            nx = 0, ny = 0, nvx = 0, nvy = 0, radius = 45, color = COLORS_root, isDragging = None\<rparr>),
        nextAddr := Suc (nextAddr s), tick := tick s + 1\<rparr>, Some (nextAddr s))"
  by (simp add: startRoot_begin_def trim_carrot Let_def expandNode_begin_def findById_def
        createPhysicsNode_string MindMapNode.extend_def PhysicsNode.fields_def truthy_def
        hasChildren_def BASE_RADIUS_root_def)
     (simp add: carrot_def)

lemma carrot_nodes:
  "newNodesData cur now carrotResult =
     Inr [\<lparr>nid = nid cur @ ''-up-'' @ dec 0 @ ''-'' @ dec (now 0), ntext = JStr [0x852C, 0x83DC],
       ntype = TextNode, imageUrl = None, level = level cur + 1, children = [],
       parentId = Some (nid cur), isLoading = None, isSelected = None, isMarked = None,
       associationType = Some AUp\<rparr>,
      \<lparr>nid = nid cur @ ''-up-'' @ dec 1 @ ''-'' @ dec (now 1), ntext = JStr [0x98DF, 0x7269],
       ntype = TextNode, imageUrl = None, level = level cur + 1, children = [],
       parentId = Some (nid cur), isLoading = None, isSelected = None, isMarked = None,
       associationType = Some AUp\<rparr>,
      \<lparr>nid = nid cur @ ''-side-'' @ dec 0 @ ''-'' @ dec (now 2), ntext = JStr [0x5154, 0x5B50],
       ntype = TextNode, imageUrl = None, level = level cur + 1, children = [],
       parentId = Some (nid cur), isLoading = None, isSelected = None, isMarked = None,
       associationType = Some ASide\<rparr>,
      \<lparr>nid = nid cur @ ''-side-'' @ dec 1 @ ''-'' @ dec (now 3), ntext = JStr [0x6C99, 0x62C9],
       ntype = TextNode, imageUrl = None, level = level cur + 1, children = [],
       parentId = Some (nid cur), isLoading = None, isSelected = None, isMarked = None,
       associationType = Some ASide\<rparr>,
      \<lparr>nid = nid cur @ ''-down-'' @ dec 0 @ ''-'' @ dec (now 4),
       ntext = JStr [0x80E1, 0x841D, 0x535C, 0x5207, 0x9762],
       ntype = TextNode, imageUrl = None, level = level cur + 1, children = [],
       parentId = Some (nid cur), isLoading = None, isSelected = None, isMarked = None,
       associationType = Some ADown\<rparr>]"
  by (simp add: newNodesData_response processGroup_def carrotResult_def type_tag_def Let_def
        numeral_2_eq_2 numeral_3_eq_3 eval_nat_numeral(2) [of "Num.Bit0 Num.One"])

text \<open>
  Claim C5. From any state, submitting the root text and letting its expansion resolve
  with two \<open>up\<close>, two \<open>side\<close> and one \<open>down\<close> string leaves a store of six nodes:
  the root, at level 0 and not loading, followed by five children in the order of the
  groups, each of kind text, at level 1, tagged with its group and with the root's id as
  parent. There are five links, each sourced at the root's id and targeted at one child.
\<close>

theorem carrot_scenario:
  "let root = nextAddr s;
       rootId = ''root-'' @ dec t0;
       s1 = fst (startRoot_begin coerce s carrot t0);
       s2 = startRoot_complete coerce s1 root (Resolved carrotResult) now rnd;
       kids = [Suc root, Suc (Suc root), Suc (Suc (Suc root)), Suc (Suc (Suc (Suc root))),
               Suc (Suc (Suc (Suc (Suc root))))]
   in snd (startRoot_begin coerce s carrot t0) = Some root
    \<and> nodesRef s2 = root # kids
    \<and> nid (heap s2 root) = rootId
    \<and> level (heap s2 root) = 0
    \<and> isLoading (heap s2 root) = Some False
    \<and> map (\<lambda>a. level (heap s2 a)) kids = [1, 1, 1, 1, 1]
    \<and> map (\<lambda>a. ntype (heap s2 a)) kids = [TextNode, TextNode, TextNode, TextNode, TextNode]
    \<and> map (\<lambda>a. associationType (heap s2 a)) kids
        = [Some AUp, Some AUp, Some ASide, Some ASide, Some ADown]
    \<and> map (\<lambda>a. parentId (heap s2 a)) kids
        = [Some rootId, Some rootId, Some rootId, Some rootId, Some rootId]
    \<and> map (\<lambda>a. ntext (heap s2 a)) kids
        = [JStr [0x852C, 0x83DC], JStr [0x98DF, 0x7269], JStr [0x5154, 0x5B50], JStr [0x6C99, 0x62C9],
           JStr [0x80E1, 0x841D, 0x535C, 0x5207, 0x9762]]
    \<and> map source (linksRef s2) = [rootId, rootId, rootId, rootId, rootId]
    \<and> map target (linksRef s2) = map (\<lambda>a. nid (heap s2 a)) kids
    \<and> toast s2 = toast s
    \<and> isInitializing s2 = False
    \<and> last (published s2) = nodesRef s2"
  unfolding Let_def carrot_begin fst_conv snd_conv
  by (simp add: startRoot_complete_def startRoot_finally_def expandNode_complete_def
        expandNode_finally_def expandNode_then_def syncNodesToGlobal_def carrot_nodes
        spawn_def createPhysicsNode_string MindMapNode.extend_def PhysicsNode.fields_def Let_def
        upt_rec)

subsection \<open>The end of a pointer gesture\<close>

lemma handleMouseUp_background:
  "dragNode s = None \<Longrightarrow>
   handleMouseUp s e = (setCursor ''grab'' (s\<lparr>isDraggingRef := False\<rparr>), None)"
  by (simp add: handleMouseUp_def Let_def setCursor_def)

lemma handleMouseUp_node:
  "dragNode s = Some node \<Longrightarrow>
   handleMouseUp s e =
     (if moveDist s e < 5
      then if shiftKey e
           then ((released s node)
                   \<lparr>heap := (heap (released s node))
                      (node := (heap (released s node) node)
                         \<lparr>isMarked := Some (\<not> truthy (isMarked (heap (released s node) node)))\<rparr>),
                    published := published s @ [nodesRef s],
                    tick := tick s + 1\<rparr>, None)
           else if ntype (heap s node) = ImageNode
           then ((released s node)\<lparr>infoNode := Some node\<rparr>, None)
           else expandNode_begin (released s node) node
      else (released s node, None))"
  by (simp add: handleMouseUp_def Let_def setCursor_def released_def syncNodesToGlobal_def
        moveDist_def)

lemma released_fields:
  "isDraggingRef (released s node) = False"
  "dragNode (released s node) = None"
  "isDragging (heap (released s node) node) = Some False"
  "published (released s node) = published s"
  "infoNode (released s node) = infoNode s"
  "nodesRef (released s node) = nodesRef s"
  "linksRef (released s node) = linksRef s"
  "isMarked (heap (released s node) a) = isMarked (heap s a)"
  "isLoading (heap (released s node) a) = isLoading (heap s a)"
  by (simp_all add: released_def setCursor_def)

lemma grabbedRoot_fields:
  "dragNode grabbedRoot = Some 0"
  "startDragPos grabbedRoot = (400, 300)"
  "published grabbedRoot = [[0], [0]]"
  "nodesRef grabbedRoot = [0]"
  "isDragging (heap grabbedRoot 0) = Some True"
  "isMarked (heap grabbedRoot 0) = None"
  by (simp_all add: grabbedRoot_def handleMouseDown_def pressAt_def getWorldPos_def hitTest_def
        idleRoot_eq mounted_def Let_def)

lemma pressAt_fields:
  "clientX (pressAt px py b) = px" "clientY (pressAt px py b) = py" "shiftKey (pressAt px py b) = b"
  by (simp_all add: pressAt_def)

subsection \<open>Re-triggering an expansion\<close>

lemma released_begin_noop:
  assumes "findById (heap s) (nodesRef s) (nid (heap s node)) = Some currentNode"
      and "truthy (isLoading (heap s currentNode)) \<or> hasChildren s (nid (heap s currentNode))"
  shows "expandNode_begin (released s node) node = (released s node, None)"
proof -
  have ids: "\<And>a. nid (heap (released s node) a) = nid (heap s a)"
    by (simp add: released_def setCursor_def)
  have f: "findById (heap (released s node)) (nodesRef (released s node))
             (nid (heap (released s node) node)) = Some currentNode"
    using assms(1) by (simp add: findById_def ids released_fields)
  have b: "truthy (isLoading (heap (released s node) currentNode))
           \<or> hasChildren (released s node) (nid (heap (released s node) currentNode))"
    using assms(2) by (simp add: released_fields ids hasChildren_def)
  show ?thesis
    using f b by (simp add: expandNode_begin_def)
qed

lemma grabbedLoading_fields:
  "dragNode grabbedLoading = Some 0"
  "startDragPos grabbedLoading = (400, 300)"
  "nodesRef grabbedLoading = [0]"
  "nid (heap grabbedLoading 0) = ''root-1''"
  "ntype (heap grabbedLoading 0) = TextNode"
  "isLoading (heap grabbedLoading 0) = Some True"
  by (simp_all add: grabbedLoading_def handleMouseDown_def pressAt_def getWorldPos_def hitTest_def
        loadingRoot_eq mounted_def Let_def)

text \<open>
  Claim C4. When the node found in the store for the requested id is already loading, or
  some link of the store has its id as source, triggering the expansion is a no-op: no
  provider call is issued and the state is returned as it was, node array, link array,
  node flags and viewport included. A plain click on such a text node therefore only
  ends the gesture: the pointer-up handler clears the drag state and issues no call.
\<close>

theorem expandNode_begin_noop:
  assumes "findById (heap s) (nodesRef s) (nid (heap s node)) = Some currentNode"
      and "truthy (isLoading (heap s currentNode)) \<or> hasChildren s (nid (heap s currentNode))"
  shows "expandNode_begin s node = (s, None)
       \<and> (dragNode s = Some node \<and> moveDist s e < 5 \<and> \<not> shiftKey e
            \<and> ntype (heap s node) = TextNode
          \<longrightarrow> handleMouseUp s e = (released s node, None))"
  using assms released_begin_noop [OF assms]
  by (simp add: expandNode_begin_def handleMouseUp_node)

theorem expandNode_begin_noop_witness:
  "findById (heap grabbedLoading) (nodesRef grabbedLoading) (nid (heap grabbedLoading 0)) = Some 0
   \<and> truthy (isLoading (heap grabbedLoading 0))
   \<and> dragNode grabbedLoading = Some 0
   \<and> moveDist grabbedLoading (pressAt 401 300 False) < 5
   \<and> ntype (heap grabbedLoading 0) = TextNode
   \<and> expandNode_begin grabbedLoading 0 = (grabbedLoading, None)
   \<and> handleMouseUp grabbedLoading (pressAt 401 300 False) = (released grabbedLoading 0, None)"
proof -
  have f: "findById (heap grabbedLoading) (nodesRef grabbedLoading) (nid (heap grabbedLoading 0)) = Some 0"
    by (simp add: findById_def grabbedLoading_fields)
  have l: "truthy (isLoading (heap grabbedLoading 0)) \<or> hasChildren grabbedLoading (nid (heap grabbedLoading 0))"
    by (simp add: truthy_def grabbedLoading_fields)
  have m: "moveDist grabbedLoading (pressAt 401 300 False) = 1"
    by (simp add: moveDist_def grabbedLoading_fields pressAt_def)
  show ?thesis
    using expandNode_begin_noop [OF f l, of "pressAt 401 300 False"] f m
    by (simp add: grabbedLoading_fields pressAt_fields truthy_def)
qed

text \<open>
  Claim C2, as amended. On pointer-up the drag state is cleared in every case: the drag
  flag is off, no node is held, and the node that was held is no longer marked as
  dragged. When the gesture started on the background, or its displacement is 5 pixels
  or more, no click semantics fire: no provider call, no mark, no detail view, no change
  of the node or link arrays, and nothing is published. A shift-click publishes the
  current node array at once; a plain click publishes nothing on pointer-up (an
  expansion it starts publishes when it completes).
\<close>

theorem handleMouseUp_gesture_end:
  "let s' = fst (handleMouseUp s e)
   in isDraggingRef s' = False
    \<and> dragNode s' = None
    \<and> (\<forall>n. dragNode s = Some n \<longrightarrow> isDragging (heap s' n) = Some False)
    \<and> (dragNode s = None \<or> 5 \<le> moveDist s e \<longrightarrow>
         snd (handleMouseUp s e) = None
         \<and> published s' = published s
         \<and> infoNode s' = infoNode s
         \<and> nodesRef s' = nodesRef s
         \<and> linksRef s' = linksRef s
         \<and> (\<forall>a. isMarked (heap s' a) = isMarked (heap s a))
         \<and> (\<forall>a. isLoading (heap s' a) = isLoading (heap s a)))
    \<and> (dragNode s \<noteq> None \<and> moveDist s e < 5 \<and> shiftKey e \<longrightarrow>
         snd (handleMouseUp s e) = None
         \<and> published s' = published s @ [nodesRef s])
    \<and> (dragNode s \<noteq> None \<and> moveDist s e < 5 \<and> \<not> shiftKey e \<longrightarrow>
         published s' = published s)"
proof (cases "dragNode s")
  case None
  then show ?thesis
    by (simp add: handleMouseUp_background setCursor_def)
next
  case (Some node)
  show ?thesis
    unfolding Let_def handleMouseUp_node [OF Some]
    using Some by (simp add: released_fields begin_frame)
qed

theorem handleMouseUp_gesture_end_witness:
  "dragNode grabbedRoot = Some 0
   \<and> 5 \<le> moveDist grabbedRoot (pressAt 430 340 False)
   \<and> isDragging (heap (fst (handleMouseUp grabbedRoot (pressAt 430 340 False))) 0) = Some False
   \<and> published (fst (handleMouseUp grabbedRoot (pressAt 430 340 False))) = [[0], [0]]
   \<and> moveDist grabbedRoot (pressAt 400 300 True) < 5
   \<and> published (fst (handleMouseUp grabbedRoot (pressAt 400 300 True))) = [[0], [0], [0]]
   \<and> moveDist grabbedRoot (pressAt 403 300 False) < 5
   \<and> published (fst (handleMouseUp grabbedRoot (pressAt 403 300 False))) = [[0], [0]]"
proof -
  have far: "moveDist grabbedRoot (pressAt 430 340 False) = 50"
    by (simp add: moveDist_def grabbedRoot_fields pressAt_def)
  have near: "moveDist grabbedRoot (pressAt 400 300 True) = 0"
    by (simp add: moveDist_def grabbedRoot_fields pressAt_def)
  have near': "moveDist grabbedRoot (pressAt 403 300 False) = 3"
    by (simp add: moveDist_def grabbedRoot_fields pressAt_def)
  show ?thesis
    using handleMouseUp_gesture_end [of grabbedRoot "pressAt 430 340 False"]
          handleMouseUp_gesture_end [of grabbedRoot "pressAt 400 300 True"]
          handleMouseUp_gesture_end [of grabbedRoot "pressAt 403 300 False"]
    by (simp add: Let_def far near near' grabbedRoot_fields pressAt_fields)
qed

text \<open>
  The claim as stated fails: the root is dragged by 50 pixels and released, and the
  list of published arrays is what it was before the release.
\<close>

theorem drag_not_published_counterexample:
  "dragNode grabbedRoot = Some 0
   \<and> moveDist grabbedRoot (pressAt 430 340 False) = 50
   \<and> published (fst (handleMouseUp grabbedRoot (pressAt 430 340 False))) = published grabbedRoot
   \<and> snd (handleMouseUp grabbedRoot (pressAt 430 340 False)) = None"
proof -
  have m: "moveDist grabbedRoot (pressAt 430 340 False) = 50"
    by (simp add: moveDist_def grabbedRoot_fields pressAt_def)
  have m': "moveDist (setCursor ''grab'' (grabbedRoot\<lparr>isDraggingRef := False\<rparr>)
              \<lparr>heap := (heap grabbedRoot)(0 := (heap grabbedRoot 0)\<lparr>isDragging := Some False\<rparr>),
               dragNode := None\<rparr>) (pressAt 430 340 False) = 50"
    using m by (simp add: moveDist_def setCursor_def)
  show ?thesis
    using m by (simp add: handleMouseUp_def Let_def grabbedRoot_fields setCursor_def m' [unfolded setCursor_def, simplified])
qed

subsection \<open>Zoom\<close>

lemma handleWheel_tk:
  "tk (transformRef (handleWheel s d)) = max 0.1 (min 5 (tk (transformRef s) - d * 0.001))"
  by (simp add: handleWheel_def Let_def)

lemma handleWheel_pan:
  "tx (transformRef (handleWheel s d)) = tx (transformRef s)"
  "ty (transformRef (handleWheel s d)) = ty (transformRef s)"
  by (simp_all add: handleWheel_def Let_def)

lemma wheels_pan:
  "tx (transformRef (foldl handleWheel s ds)) = tx (transformRef s)
   \<and> ty (transformRef (foldl handleWheel s ds)) = ty (transformRef s)"
  by (induction ds arbitrary: s) (simp_all add: handleWheel_pan)

lemma wheels_range:
  "0.1 \<le> tk (transformRef s) \<Longrightarrow> tk (transformRef s) \<le> 5 \<Longrightarrow>
   0.1 \<le> tk (transformRef (foldl handleWheel s ds)) \<and> tk (transformRef (foldl handleWheel s ds)) \<le> 5"
proof (induction ds arbitrary: s)
  case Nil
  then show ?case by simp
next
  case (Cons d ds)
  have "0.1 \<le> tk (transformRef (handleWheel s d))" "tk (transformRef (handleWheel s d)) \<le> 5"
    by (simp_all add: handleWheel_tk)
  then show ?case using Cons.IH [of "handleWheel s d"] by simp
qed

text \<open>
  Claim C8. From a scale within \<open>[0.1, 5]\<close>, the scale is within \<open>[0.1, 5]\<close> after any
  finite sequence of wheel events, and the pan offset is what it was. One wheel event
  with amount \<open>d\<close> adds \<open>- d * 0.001\<close> to the scale and clamps: the result is exactly
  \<open>5\<close> when the sum reaches \<open>5\<close> or more, exactly \<open>0.1\<close> when it is \<open>0.1\<close> or less, and
  the sum otherwise.
\<close>

theorem wheel_scale_bounds:
  assumes "0.1 \<le> tk (transformRef s)" and "tk (transformRef s) \<le> 5"
  shows "0.1 \<le> tk (transformRef (foldl handleWheel s ds))
       \<and> tk (transformRef (foldl handleWheel s ds)) \<le> 5
       \<and> tx (transformRef (foldl handleWheel s ds)) = tx (transformRef s)
       \<and> ty (transformRef (foldl handleWheel s ds)) = ty (transformRef s)
       \<and> tk (transformRef (handleWheel s d)) =
           (if 5 \<le> tk (transformRef s) + (- d * 0.001) then 5
            else if tk (transformRef s) + (- d * 0.001) \<le> 0.1 then 0.1
            else tk (transformRef s) + (- d * 0.001))"
  using wheels_range [OF assms, of ds] wheels_pan [of s ds]
  by (simp add: handleWheel_tk)

theorem wheel_scale_bounds_witness:
  "0.1 \<le> tk (transformRef mounted) \<and> tk (transformRef mounted) \<le> 5
   \<and> tk (transformRef (foldl handleWheel mounted [-100000, 3, 200000, -500])) = 0.6
   \<and> tx (transformRef (foldl handleWheel mounted [-100000, 3, 200000, -500])) = 0
   \<and> tk (transformRef (handleWheel mounted (-100000))) = 5
   \<and> tk (transformRef (handleWheel mounted 100000)) = 0.1"
  using wheel_scale_bounds [of mounted "[-100000, 3, 200000, -500]" "-100000"]
        wheel_scale_bounds [of mounted "[]" "100000"]
  by (simp add: mounted_def handleWheel_def Let_def)

lemma zoomIn_pow: "tk (transformRef ((zoomIn ^^ n) s)) = tk (transformRef s) * 1.2 ^ n"
  by (induction n) (simp_all add: zoomIn_def)

lemma zoomOut_pow: "tk (transformRef ((zoomOut ^^ n) s)) = tk (transformRef s) * 0.8 ^ n"
  by (induction n) (simp_all add: zoomOut_def)

lemma nine_presses: "(5::real) < 1.2 ^ 9"
  by (simp add: power_divide)

lemma eleven_presses: "(0.8::real) ^ 11 < 0.1"
  by (simp add: power_divide)

text \<open>
  Claim C9. The zoom-in button multiplies the scale by \<open>1.2\<close> and the zoom-out button by
  \<open>0.8\<close>, with no clamp: from the reset view some number of zoom-in presses (nine)
  takes the scale above \<open>5\<close> and some number of zoom-out presses (eleven) takes it
  below \<open>0.1\<close>, and one press after the wheel has reached a bound already leaves the
  range.
\<close>

theorem zoom_buttons_unbounded:
  "tk (transformRef (zoomIn s)) = tk (transformRef s) * 1.2
   \<and> tk (transformRef (zoomOut s)) = tk (transformRef s) * 0.8
   \<and> (\<exists>n. 5 < tk (transformRef ((zoomIn ^^ n) (resetView s))))
   \<and> (\<exists>n. tk (transformRef ((zoomOut ^^ n) (resetView s))) < 0.1)
   \<and> 5 < tk (transformRef (zoomIn (handleWheel (resetView s) (-100000))))
   \<and> tk (transformRef (zoomOut (handleWheel (resetView s) 100000))) < 0.1"
proof -
  have up: "5 < tk (transformRef ((zoomIn ^^ 9) (resetView s)))"
    using nine_presses by (simp only: zoomIn_pow) (simp add: resetView_def)
  have dn: "tk (transformRef ((zoomOut ^^ 11) (resetView s))) < 0.1"
    using eleven_presses by (simp only: zoomOut_pow) (simp add: resetView_def)
  show ?thesis using up dn
    by (auto simp: zoomIn_def zoomOut_def handleWheel_def resetView_def Let_def)
qed

subsection \<open>Spring force of a link\<close>

lemma unit_axis:
  fixes dx dy :: real
  assumes "dx \<noteq> 0 \<or> dy \<noteq> 0"
  shows "(dx / sqrt (dx * dx + dy * dy))\<^sup>2 + (dy / sqrt (dx * dx + dy * dy))\<^sup>2 = 1"
proof -
  let ?q = "dx * dx + dy * dy"
  have nz: "?q \<noteq> 0"
    using assms by simp
  have r2: "(sqrt ?q)\<^sup>2 = ?q"
    by simp
  have "(dx / sqrt ?q)\<^sup>2 + (dy / sqrt ?q)\<^sup>2 = (dx\<^sup>2 + dy\<^sup>2) / (sqrt ?q)\<^sup>2"
    by (simp add: power_divide add_divide_distrib)
  also have "\<dots> = ?q / ?q"
    by (simp only: r2) (simp add: power2_eq_square)
  also have "\<dots> = 1"
    using nz by simp
  finally show ?thesis .
qed

text \<open>
  Claim C6. For a link whose two endpoints are found in the store as distinct objects,
  the step applies a force of size \<open>0.008 * (dist - (260 + (r\<^sub>a + r\<^sub>b) / 2))\<close>, where
  \<open>dist\<close> is the distance between the endpoints (\<open>1\<close> when they coincide): it is
  proportional to the deviation from the base distance plus half the sum of the radii.
  The force acts along the unit vector from source to target (no direction, hence no
  force, when the endpoints coincide), is added to the source's velocity and subtracted
  from the target's, and an endpoint held by the pointer keeps its velocity. Positions
  are not touched.
\<close>

theorem springLink_force:
  assumes src: "findById h pNodes (source link) = Some a"
      and tgt: "findById h pNodes (target link) = Some b"
      and ab: "a \<noteq> b"
  shows "let h' = springLink pNodes h link;
             dx = nx (h b) - nx (h a);
             dy = ny (h b) - ny (h a);
             dist = linkDist (h a) (h b);
             force = 0.008 * (dist - (260 + (radius (h a) + radius (h b)) / 2));
             fx = dx / dist * force;
             fy = dy / dist * force
         in dist = (if dx = 0 \<and> dy = 0 then 1 else sqrt (dx\<^sup>2 + dy\<^sup>2))
          \<and> (dx / dist)\<^sup>2 + (dy / dist)\<^sup>2 = (if dx = 0 \<and> dy = 0 then 0 else 1)
          \<and> nvx (h' a) = (if truthy (isDragging (h a)) then nvx (h a) else nvx (h a) + fx)
          \<and> nvy (h' a) = (if truthy (isDragging (h a)) then nvy (h a) else nvy (h a) + fy)
          \<and> nvx (h' b) = (if truthy (isDragging (h b)) then nvx (h b) else nvx (h b) - fx)
          \<and> nvy (h' b) = (if truthy (isDragging (h b)) then nvy (h b) else nvy (h b) - fy)
          \<and> nx (h' a) = nx (h a) \<and> ny (h' a) = ny (h a)
          \<and> nx (h' b) = nx (h b) \<and> ny (h' b) = ny (h b)"
proof -
  let ?dx = "nx (h b) - nx (h a)" and ?dy = "ny (h b) - ny (h a)"
  have d: "linkDist (h a) (h b) = (if ?dx = 0 \<and> ?dy = 0 then 1 else sqrt (?dx\<^sup>2 + ?dy\<^sup>2))"
    by (simp add: linkDist_def Let_def power2_eq_square)
  have u: "(?dx / linkDist (h a) (h b))\<^sup>2 + (?dy / linkDist (h a) (h b))\<^sup>2
             = (if ?dx = 0 \<and> ?dy = 0 then 0 else 1)"
  proof (cases "?dx = 0 \<and> ?dy = 0")
    case True
    then show ?thesis by simp
  next
    case False
    then have "linkDist (h a) (h b) = sqrt (?dx * ?dx + ?dy * ?dy)"
      using d by (simp add: power2_eq_square)
    then show ?thesis using unit_axis [of ?dx ?dy] False by auto
  qed
  have f: "(linkDist (h a) (h b) - targetDist (h a) (h b)) * LINK_STRENGTH
             = 0.008 * (linkDist (h a) (h b) - (260 + (radius (h a) + radius (h b)) / 2))"
    by (simp add: targetDist_def LINK_STRENGTH_def LINK_DISTANCE_def)
  have v: "springLink pNodes h link =
             (let fx = ?dx / linkDist (h a) (h b) * ((linkDist (h a) (h b) - targetDist (h a) (h b)) * LINK_STRENGTH);
                  fy = ?dy / linkDist (h a) (h b) * ((linkDist (h a) (h b) - targetDist (h a) (h b)) * LINK_STRENGTH);
                  h1 = (if \<not> truthy (isDragging (h a))
                        then h(a := (h a)\<lparr>nvx := nvx (h a) + fx, nvy := nvy (h a) + fy\<rparr>) else h)
              in (if \<not> truthy (isDragging (h b))
                  then h1(b := (h b)\<lparr>nvx := nvx (h b) - fx, nvy := nvy (h b) - fy\<rparr>) else h1))"
    using ab by (simp add: springLink_def src tgt Let_def)
  show ?thesis
    unfolding Let_def
    apply (intro conjI)
    subgoal by (rule d)
    subgoal by (rule u)
    using ab by (simp_all add: v f Let_def)
qed

theorem springLink_force_witness:
  "findById twoNodes [0, 1] (source \<lparr>source = ''p'', target = ''c'', strength = 1\<rparr>) = Some 0
   \<and> findById twoNodes [0, 1] (target \<lparr>source = ''p'', target = ''c'', strength = 1\<rparr>) = Some 1
   \<and> (0::nat) \<noteq> 1
   \<and> linkDist (twoNodes 0) (twoNodes 1) = 5
   \<and> nvx (springLink [0, 1] twoNodes \<lparr>source = ''p'', target = ''c'', strength = 1\<rparr> 0) = - 1.3992
   \<and> nvy (springLink [0, 1] twoNodes \<lparr>source = ''p'', target = ''c'', strength = 1\<rparr> 0) = - 1.8656
   \<and> nvx (springLink [0, 1] twoNodes \<lparr>source = ''p'', target = ''c'', strength = 1\<rparr> 1) = 0"
proof -
  have a: "findById twoNodes [0, 1] (source \<lparr>source = ''p'', target = ''c'', strength = 1\<rparr>) = Some 0"
    by (simp add: findById_def twoNodes_def unusedNode_def)
  have b: "findById twoNodes [0, 1] (target \<lparr>source = ''p'', target = ''c'', strength = 1\<rparr>) = Some 1"
    by (simp add: findById_def twoNodes_def unusedNode_def)
  have n: "(0::nat) \<noteq> 1" by simp
  show ?thesis
    using springLink_force [OF a b n] a b
    by (simp add: Let_def twoNodes_def unusedNode_def truthy_def)
qed

subsection \<open>Line widths of the text layout\<close>

lemma split_on_nonempty: "split_on sep t \<noteq> []"
  by (induction t) (simp_all split: list.split)

lemma split_on_no_sep: "sep \<notin> set t \<Longrightarrow> split_on sep t = [t]"
  by (induction t) auto

lemma split_on_sep: "sep \<in> set t \<Longrightarrow> 2 \<le> length (split_on sep t)"
proof (induction t)
  case Nil
  then show ?case by simp
next
  case (Cons c cs)
  show ?case
  proof (cases "c = sep")
    case True
    then show ?thesis
      using split_on_nonempty [of sep cs] by (cases "split_on sep cs") simp_all
  next
    case False
    then have "sep \<in> set cs" using Cons.prems by simp
    then have "2 \<le> length (split_on sep cs)" by (rule Cons.IH)
    then show ?thesis using False by (cases "split_on sep cs") simp_all
  qed
qed

lemma split_on_words: "x \<in> set (split_on sep t) \<Longrightarrow> sep \<notin> set x"
proof (induction t arbitrary: x)
  case Nil
  then show ?case by simp
next
  case (Cons c cs)
  obtain w0 ws where s: "split_on sep cs = w0 # ws"
    using split_on_nonempty [of sep cs] by (cases "split_on sep cs") simp_all
  have w0: "sep \<notin> set w0" using Cons.IH [of w0] s by simp
  have ws: "\<And>y. y \<in> set ws \<Longrightarrow> sep \<notin> set y" using Cons.IH s by simp
  show ?case
  proof (cases "c = sep")
    case True
    then have "x = [] \<or> x = w0 \<or> x \<in> set ws" using Cons.prems s by auto
    then show ?thesis using w0 ws by auto
  next
    case False
    then have "x = c # w0 \<or> x \<in> set ws" using Cons.prems s by auto
    then show ?thesis using w0 ws False by auto
  qed
qed

lemma split_on_snoc:
  "sep \<notin> set word \<Longrightarrow> split_on sep (cur @ sep # word) = split_on sep cur @ [word]"
proof (induction cur)
  case Nil
  then show ?case by (simp add: split_on_no_sep)
next
  case (Cons c cs)
  obtain w0 ws where s: "split_on sep cs = w0 # ws"
    using split_on_nonempty [of sep cs] by (cases "split_on sep cs") simp_all
  show ?case using Cons s by simp
qed

lemma wordWrap_lines:
  assumes "\<forall>l \<in> set lines. m l < w \<or> l \<in> W"
      and "m cur < w \<or> cur \<in> W"
      and "set ws \<subseteq> W"
  shows "\<forall>l \<in> set (wordWrap m w cur lines ws). m l < w \<or> l \<in> W"
  using assms
proof (induction ws arbitrary: cur lines)
  case Nil
  then show ?case by auto
next
  case (Cons word ws)
  show ?case
  proof (cases "m (cur @ [0x20] @ word) < w")
    case True
    then show ?thesis
      using Cons.IH [of lines "cur @ [0x20] @ word"] Cons.prems by simp
  next
    case False
    then show ?thesis
      using Cons.IH [of "lines @ [cur]" word] Cons.prems by auto
  qed
qed

lemma wordWrap_words:
  "\<forall>x \<in> set ws. 0x20 \<notin> set x \<Longrightarrow>
   concat (map (split_on 0x20) (wordWrap m w cur lines ws))
     = concat (map (split_on 0x20) lines) @ split_on 0x20 cur @ ws"
proof (induction ws arbitrary: cur lines)
  case Nil
  then show ?case by simp
next
  case (Cons word ws)
  have word: "0x20 \<notin> set word" and rest: "\<forall>x \<in> set ws. 0x20 \<notin> set x"
    using Cons.prems by simp_all
  show ?case
  proof (cases "m (cur @ [0x20] @ word) < w")
    case True
    have "concat (map (split_on 0x20) (wordWrap m w (cur @ [0x20] @ word) lines ws))
        = concat (map (split_on 0x20) lines) @ split_on 0x20 (cur @ [0x20] @ word) @ ws"
      using rest by (rule Cons.IH)
    then show ?thesis using True word by (simp add: split_on_snoc)
  next
    case False
    have "concat (map (split_on 0x20) (wordWrap m w word (lines @ [cur]) ws))
        = concat (map (split_on 0x20) (lines @ [cur])) @ split_on 0x20 word @ ws"
      using rest by (rule Cons.IH)
    then show ?thesis using False word by (simp add: split_on_no_sep)
  qed
qed

lemma charWrap_concat: "concat (charWrap m w tmp lines cs) = concat lines @ tmp @ cs"
  by (induction cs arbitrary: tmp lines) simp_all

lemma charWrap_lines:
  "\<forall>l \<in> set lines. m l < w \<or> length l \<le> 1 \<Longrightarrow> m tmp < w \<or> length tmp \<le> 1 \<Longrightarrow>
   \<forall>l \<in> set (charWrap m w tmp lines cs). m l < w \<or> length l \<le> 1"
proof (induction cs arbitrary: tmp lines)
  case Nil
  then show ?case by auto
next
  case (Cons c cs)
  show ?case
  proof (cases "m (tmp @ [c]) < w")
    case True
    have t: "m (tmp @ [c]) < w \<or> length (tmp @ [c]) \<le> 1"
      using True by (rule disjI1)
    have "\<forall>l \<in> set (charWrap m w (tmp @ [c]) lines cs). m l < w \<or> length l \<le> 1"
      using Cons.prems(1) t by (rule Cons.IH)
    then show ?thesis using True by (simp only: charWrap.simps if_True)
  next
    case False
    have l: "\<forall>l \<in> set (lines @ [tmp]). m l < w \<or> length l \<le> 1"
      using Cons.prems by auto
    have t: "m [c] < w \<or> length [c] \<le> 1"
      by simp
    have "\<forall>l \<in> set (charWrap m w [c] (lines @ [tmp]) cs). m l < w \<or> length l \<le> 1"
      using l t by (rule Cons.IH)
    then show ?thesis using False by (simp only: charWrap.simps if_False)
  qed
qed

lemma charWrap_fits:
  "\<forall>c \<in> set cs. m [c] < w \<Longrightarrow> \<forall>l \<in> set lines. m l < w \<Longrightarrow>
   m tmp < w \<or> (tmp = [] \<and> cs \<noteq> []) \<Longrightarrow>
   \<forall>l \<in> set (charWrap m w tmp lines cs). m l < w"
proof (induction cs arbitrary: tmp lines)
  case Nil
  then show ?case by auto
next
  case (Cons c cs)
  have c: "m [c] < w" and rest: "\<forall>c \<in> set cs. m [c] < w"
    using Cons.prems(1) by simp_all
  show ?case
  proof (cases "m (tmp @ [c]) < w")
    case True
    have t: "m (tmp @ [c]) < w \<or> (tmp @ [c] = [] \<and> cs \<noteq> [])"
      using True by (rule disjI1)
    have "\<forall>l \<in> set (charWrap m w (tmp @ [c]) lines cs). m l < w"
      using rest Cons.prems(2) t by (rule Cons.IH)
    then show ?thesis using True by (simp only: charWrap.simps if_True)
  next
    case False
    have "tmp \<noteq> []" using False c by auto
    then have "m tmp < w" using Cons.prems(3) by simp
    then have l: "\<forall>l \<in> set (lines @ [tmp]). m l < w"
      using Cons.prems(2) by auto
    have t: "m [c] < w \<or> ([c] = [] \<and> cs \<noteq> [])"
      using c by (rule disjI1)
    have "\<forall>l \<in> set (charWrap m w [c] (lines @ [tmp]) cs). m l < w"
      using rest l t by (rule Cons.IH)
    then show ?thesis using False by (simp only: charWrap.simps if_False)
  qed
qed

text \<open>
  Claim C7, as amended. A label with a space is wrapped by words only: the lines are
  the words of the label, in order, joined by single spaces, so that no word is split;
  and every line measures less than \<open>maxWidth\<close> or is a single word of the label, which
  is emitted without a check and without character-level wrapping. A label without a
  space is wrapped by characters only when it is longer than 5 code units and wider
  than \<open>maxWidth\<close>: otherwise the label is the only line, whatever it measures. When
  the label is wrapped by characters, the lines are consecutive pieces of it; every
  line measures less than \<open>maxWidth\<close> or has at most one code unit; and every line
  measures less than \<open>maxWidth\<close> when each code unit of the label does on its own.
\<close>

theorem wrapLines_widths:
  "(0x20 \<in> set txt \<longrightarrow>
      concat (map (split_on 0x20) (wrapLines m txt w)) = split_on 0x20 txt
      \<and> (\<forall>l \<in> set (wrapLines m txt w). m l < w \<or> l \<in> set (split_on 0x20 txt)))
   \<and> (0x20 \<notin> set txt \<and> (length txt \<le> 5 \<or> m txt \<le> w) \<longrightarrow> wrapLines m txt w = [txt])
   \<and> (0x20 \<notin> set txt \<and> 5 < length txt \<and> w < m txt \<longrightarrow>
        wrapLines m txt w = charWrap m w [] [] txt
        \<and> concat (wrapLines m txt w) = txt
        \<and> (\<forall>l \<in> set (wrapLines m txt w). m l < w \<or> length l \<le> 1)
        \<and> ((\<forall>c \<in> set txt. m [c] < w) \<longrightarrow> (\<forall>l \<in> set (wrapLines m txt w). m l < w)))"
proof (intro conjI impI)
  assume sp: "0x20 \<in> set txt"
  let ?words = "split_on 0x20 txt"
  have len: "2 \<le> length ?words" using sp by (rule split_on_sep)
  then obtain w0 rest where ws: "?words = w0 # rest"
    by (cases ?words) simp_all
  have e: "wrapLines m txt w = wordWrap m w w0 [] rest"
    using len by (auto simp: wrapLines_def Let_def ws)
  have free: "\<forall>x \<in> set ?words. 0x20 \<notin> set x"
    by (auto dest: split_on_words)
  have "concat (map (split_on 0x20) (wordWrap m w w0 [] rest))
      = concat (map (split_on 0x20) []) @ split_on 0x20 w0 @ rest"
    by (rule wordWrap_words) (use free ws in simp)
  then show "concat (map (split_on 0x20) (wrapLines m txt w)) = ?words"
    using free by (simp add: e ws split_on_no_sep)
  have "\<forall>l \<in> set (wordWrap m w w0 [] rest). m l < w \<or> l \<in> set ?words"
    by (rule wordWrap_lines) (simp_all add: ws subset_insertI)
  then show "\<forall>l \<in> set (wrapLines m txt w). m l < w \<or> l \<in> set ?words"
    by (simp add: e)
next
  assume a: "0x20 \<notin> set txt \<and> (length txt \<le> 5 \<or> m txt \<le> w)"
  then have one: "split_on 0x20 txt = [txt]" by (simp add: split_on_no_sep)
  show "wrapLines m txt w = [txt]"
    using a by (auto simp: wrapLines_def Let_def one)
next
  assume a: "0x20 \<notin> set txt \<and> 5 < length txt \<and> w < m txt"
  then have one: "split_on 0x20 txt = [txt]" by (simp add: split_on_no_sep)
  show e: "wrapLines m txt w = charWrap m w [] [] txt"
    using a by (simp add: wrapLines_def Let_def one)
  show "concat (wrapLines m txt w) = txt"
    by (simp add: e charWrap_concat)
  have "\<forall>l \<in> set (charWrap m w [] [] txt). m l < w \<or> length l \<le> 1"
    by (rule charWrap_lines) simp_all
  then show "\<forall>l \<in> set (wrapLines m txt w). m l < w \<or> length l \<le> 1"
    by (simp add: e)
  assume f: "\<forall>c \<in> set txt. m [c] < w"
  have ne: "m [] < w \<or> (([]::jsstring) = [] \<and> txt \<noteq> [])"
    using a by auto
  have "\<forall>l \<in> set (charWrap m w [] [] txt). m l < w"
    using f _ ne by (rule charWrap_fits) simp
  then show "\<forall>l \<in> set (wrapLines m txt w). m l < w"
    by (simp add: e)
qed

lemma spaced_lines:
  "wrapLines tenPerUnit spacedLabel 50 = [[0x61, 0x62, 0x63, 0x64, 0x65, 0x66, 0x67, 0x68], [0x69]]"
  by (simp add: wrapLines_def spacedLabel_def tenPerUnit_def Let_def)

lemma token_lines:
  "wrapLines tenPerUnit longToken 25 = [[0x61, 0x62], [0x63, 0x64], [0x65, 0x66]]"
  by (simp add: wrapLines_def longToken_def tenPerUnit_def Let_def)

lemma ligature_split: "split_on 0x20 ligatureLabel = [ligatureLabel]"
  by (simp add: ligatureLabel_def)

lemma ligature_width: "glyphWidths ligatureLabel = 125"
  by (simp add: ligatureLabel_def glyphWidths_def)

lemma ligature_charWrap:
  "charWrap glyphWidths (252 / 5) [] [] ligatureLabel = [[0x61, 0x62, 0x63, 0x64, 0x65], [0xFDFD]]"
  by (simp add: ligatureLabel_def glyphWidths_def)

lemma ligature_lines:
  "wrapLines glyphWidths ligatureLabel (252 / 5) = [[0x61, 0x62, 0x63, 0x64, 0x65], [0xFDFD]]"
  by (simp add: wrapLines_def Let_def ligature_split ligature_width ligature_charWrap)
     (simp add: ligatureLabel_def)

theorem wrapLines_widths_witness:
  "0x20 \<in> set spacedLabel
   \<and> concat (map (split_on 0x20) (wrapLines tenPerUnit spacedLabel 50)) = split_on 0x20 spacedLabel
   \<and> [0x69] \<in> set (wrapLines tenPerUnit spacedLabel 50)
   \<and> tenPerUnit [0x69] < 50
   \<and> [0x61, 0x62, 0x63, 0x64, 0x65, 0x66, 0x67, 0x68] \<in> set (split_on 0x20 spacedLabel)
   \<and> 0x20 \<notin> set shortToken \<and> length shortToken \<le> 5 \<and> 5 < tenPerUnit shortToken
   \<and> wrapLines tenPerUnit shortToken 5 = [shortToken]
   \<and> 0x20 \<notin> set longToken \<and> 5 < length longToken \<and> 25 < tenPerUnit longToken
   \<and> concat (wrapLines tenPerUnit longToken 25) = longToken
   \<and> [0x61, 0x62] \<in> set (wrapLines tenPerUnit longToken 25)
   \<and> tenPerUnit [0x61, 0x62] < 25"
  using wrapLines_widths [of spacedLabel tenPerUnit 50] wrapLines_widths [of shortToken tenPerUnit 5]
        wrapLines_widths [of longToken tenPerUnit 25]
  by (simp add: spaced_lines token_lines) (simp add: spacedLabel_def longToken_def shortToken_def tenPerUnit_def)

text \<open>
  The claim as stated fails. With 10 pixels per code unit and \<open>maxWidth = 50\<close>, the
  first line of a label with a space is a word of 80 pixels, left unsplit although each
  of its code units fits. And at the width the renderer passes for a node of normal
  radius, 50.4 pixels, the character-level wrapping of a six-unit label that ends in a
  ligature of 90 pixels, its other code units measuring 7 pixels, yields that ligature
  as a line.
\<close>

theorem wrapLines_counterexample:
  "wrapLines tenPerUnit spacedLabel 50 = [[0x61, 0x62, 0x63, 0x64, 0x65, 0x66, 0x67, 0x68], [0x69]]
   \<and> \<not> tenPerUnit [0x61, 0x62, 0x63, 0x64, 0x65, 0x66, 0x67, 0x68] \<le> 50
   \<and> tenPerUnit [0x61] \<le> 50
   \<and> wrapLines glyphWidths ligatureLabel (BASE_RADIUS_normal * 1.8)
       = [[0x61, 0x62, 0x63, 0x64, 0x65], [0xFDFD]]
   \<and> \<not> glyphWidths [0xFDFD] \<le> BASE_RADIUS_normal * 1.8"
  by (simp add: spaced_lines BASE_RADIUS_normal_def ligature_lines)
     (simp add: tenPerUnit_def glyphWidths_def)

subsection \<open>What the bundled provider resolves with\<close>













subsection \<open>The sample services\<close>








lemma execute_busy: "execute busyGen parse model = Rejected (Thrown busy)"
  by (simp add: execute_def busyGen_def)










end
